theory Spec2Isabelle
  imports Main "HOL-Library.AList"
begin

section \<open>The generated mock of the Kubernetes client (pkg/driver/mock\_k8s\_client.go)\<close>

text \<open>
  Go interface values are modelled by their dynamic type and an identity; the nil interface
  is a value of its own. Which dynamic type implements which interface is the Go type
  system's business and is taken as a parameter.
\<close>

type_synonym go_type = string

datatype go_value = GoNil | GoDyn go_type nat

type_synonym "implements" = "go_type \<Rightarrow> go_type \<Rightarrow> bool"

text \<open>
  How a call of a mock method can end without returning: an index panic, or the controller
  ending the test goroutine (gomock reports an unexpected call through \<open>T.Fatalf\<close>).
\<close>

datatype go_panic = PanicIndexOutOfRange | TestFailNow

text \<open>
  \<open>gomock.Controller.Call(receiver, method)\<close> belongs to the gomock library: it looks up the
  recorded expectation for the method and hands back the recorded return values as a slice.
\<close>

datatype ctrl_result = Returns "go_value list" | FailNow

type_synonym Controller = "string \<Rightarrow> ctrl_result"

text \<open>The two-valued type assertion \<open>v, ok := x.(T)\<close>: never panics, zero value when it fails.\<close>

fun type_assert2 :: "implements \<Rightarrow> go_value \<Rightarrow> go_type \<Rightarrow> go_value \<times> bool" where
  "type_assert2 impl GoNil T = (GoNil, False)"
| "type_assert2 impl (GoDyn d i) T = (if impl d T then (GoDyn d i, True) else (GoNil, False))"

text \<open>
  The body every mocked base method shares:
  \<^verbatim>\<open>ret := m.ctrl.Call(m, "Name"); ret0, _ := ret[0].(T); return ret0\<close>
  Indexing \<open>ret[0]\<close> panics on an empty slice.
\<close>

definition mock_base_method ::
  "implements \<Rightarrow> Controller \<Rightarrow> string \<Rightarrow> go_type \<Rightarrow> go_panic + go_value" where
  "mock_base_method impl ctrl name T =
     (case ctrl name of
        FailNow \<Rightarrow> Inl TestFailNow
      | Returns ret \<Rightarrow>
          (case ret of
             [] \<Rightarrow> Inl PanicIndexOutOfRange
           | r0 # _ \<Rightarrow> (let (ret0, _) = type_assert2 impl r0 T in Inr ret0)))"

definition AdmissionregistrationV1 :: "implements \<Rightarrow> Controller \<Rightarrow> go_panic + go_value" where
  "AdmissionregistrationV1 impl ctrl = mock_base_method impl ctrl ''AdmissionregistrationV1'' ''v1.AdmissionregistrationV1Interface''"

definition AdmissionregistrationV1alpha1 :: "implements \<Rightarrow> Controller \<Rightarrow> go_panic + go_value" where
  "AdmissionregistrationV1alpha1 impl ctrl = mock_base_method impl ctrl ''AdmissionregistrationV1alpha1'' ''v1alpha1.AdmissionregistrationV1alpha1Interface''"

definition AdmissionregistrationV1beta1 :: "implements \<Rightarrow> Controller \<Rightarrow> go_panic + go_value" where
  "AdmissionregistrationV1beta1 impl ctrl = mock_base_method impl ctrl ''AdmissionregistrationV1beta1'' ''v1beta1.AdmissionregistrationV1beta1Interface''"

definition AppsV1 :: "implements \<Rightarrow> Controller \<Rightarrow> go_panic + go_value" where
  "AppsV1 impl ctrl = mock_base_method impl ctrl ''AppsV1'' ''v10.AppsV1Interface''"

definition AppsV1beta1 :: "implements \<Rightarrow> Controller \<Rightarrow> go_panic + go_value" where
  "AppsV1beta1 impl ctrl = mock_base_method impl ctrl ''AppsV1beta1'' ''v1beta10.AppsV1beta1Interface''"

definition AppsV1beta2 :: "implements \<Rightarrow> Controller \<Rightarrow> go_panic + go_value" where
  "AppsV1beta2 impl ctrl = mock_base_method impl ctrl ''AppsV1beta2'' ''v1beta2.AppsV1beta2Interface''"

definition AuthenticationV1 :: "implements \<Rightarrow> Controller \<Rightarrow> go_panic + go_value" where
  "AuthenticationV1 impl ctrl = mock_base_method impl ctrl ''AuthenticationV1'' ''v11.AuthenticationV1Interface''"

definition AuthenticationV1alpha1 :: "implements \<Rightarrow> Controller \<Rightarrow> go_panic + go_value" where
  "AuthenticationV1alpha1 impl ctrl = mock_base_method impl ctrl ''AuthenticationV1alpha1'' ''v1alpha11.AuthenticationV1alpha1Interface''"

definition AuthenticationV1beta1 :: "implements \<Rightarrow> Controller \<Rightarrow> go_panic + go_value" where
  "AuthenticationV1beta1 impl ctrl = mock_base_method impl ctrl ''AuthenticationV1beta1'' ''v1beta11.AuthenticationV1beta1Interface''"

definition AuthorizationV1 :: "implements \<Rightarrow> Controller \<Rightarrow> go_panic + go_value" where
  "AuthorizationV1 impl ctrl = mock_base_method impl ctrl ''AuthorizationV1'' ''v12.AuthorizationV1Interface''"

definition AuthorizationV1beta1 :: "implements \<Rightarrow> Controller \<Rightarrow> go_panic + go_value" where
  "AuthorizationV1beta1 impl ctrl = mock_base_method impl ctrl ''AuthorizationV1beta1'' ''v1beta12.AuthorizationV1beta1Interface''"

definition AutoscalingV1 :: "implements \<Rightarrow> Controller \<Rightarrow> go_panic + go_value" where
  "AutoscalingV1 impl ctrl = mock_base_method impl ctrl ''AutoscalingV1'' ''v13.AutoscalingV1Interface''"

definition AutoscalingV2 :: "implements \<Rightarrow> Controller \<Rightarrow> go_panic + go_value" where
  "AutoscalingV2 impl ctrl = mock_base_method impl ctrl ''AutoscalingV2'' ''v2.AutoscalingV2Interface''"

definition AutoscalingV2beta1 :: "implements \<Rightarrow> Controller \<Rightarrow> go_panic + go_value" where
  "AutoscalingV2beta1 impl ctrl = mock_base_method impl ctrl ''AutoscalingV2beta1'' ''v2beta1.AutoscalingV2beta1Interface''"

definition AutoscalingV2beta2 :: "implements \<Rightarrow> Controller \<Rightarrow> go_panic + go_value" where
  "AutoscalingV2beta2 impl ctrl = mock_base_method impl ctrl ''AutoscalingV2beta2'' ''v2beta2.AutoscalingV2beta2Interface''"

definition BatchV1 :: "implements \<Rightarrow> Controller \<Rightarrow> go_panic + go_value" where
  "BatchV1 impl ctrl = mock_base_method impl ctrl ''BatchV1'' ''v14.BatchV1Interface''"

definition BatchV1beta1 :: "implements \<Rightarrow> Controller \<Rightarrow> go_panic + go_value" where
  "BatchV1beta1 impl ctrl = mock_base_method impl ctrl ''BatchV1beta1'' ''v1beta13.BatchV1beta1Interface''"

definition CertificatesV1 :: "implements \<Rightarrow> Controller \<Rightarrow> go_panic + go_value" where
  "CertificatesV1 impl ctrl = mock_base_method impl ctrl ''CertificatesV1'' ''v15.CertificatesV1Interface''"

definition CertificatesV1alpha1 :: "implements \<Rightarrow> Controller \<Rightarrow> go_panic + go_value" where
  "CertificatesV1alpha1 impl ctrl = mock_base_method impl ctrl ''CertificatesV1alpha1'' ''v1alpha12.CertificatesV1alpha1Interface''"

definition CertificatesV1beta1 :: "implements \<Rightarrow> Controller \<Rightarrow> go_panic + go_value" where
  "CertificatesV1beta1 impl ctrl = mock_base_method impl ctrl ''CertificatesV1beta1'' ''v1beta14.CertificatesV1beta1Interface''"

definition CoordinationV1 :: "implements \<Rightarrow> Controller \<Rightarrow> go_panic + go_value" where
  "CoordinationV1 impl ctrl = mock_base_method impl ctrl ''CoordinationV1'' ''v16.CoordinationV1Interface''"

definition CoordinationV1alpha1 :: "implements \<Rightarrow> Controller \<Rightarrow> go_panic + go_value" where
  "CoordinationV1alpha1 impl ctrl = mock_base_method impl ctrl ''CoordinationV1alpha1'' ''v1alpha13.CoordinationV1alpha1Interface''"

definition CoordinationV1beta1 :: "implements \<Rightarrow> Controller \<Rightarrow> go_panic + go_value" where
  "CoordinationV1beta1 impl ctrl = mock_base_method impl ctrl ''CoordinationV1beta1'' ''v1beta15.CoordinationV1beta1Interface''"

definition CoreV1 :: "implements \<Rightarrow> Controller \<Rightarrow> go_panic + go_value" where
  "CoreV1 impl ctrl = mock_base_method impl ctrl ''CoreV1'' ''v17.CoreV1Interface''"

definition Discovery :: "implements \<Rightarrow> Controller \<Rightarrow> go_panic + go_value" where
  "Discovery impl ctrl = mock_base_method impl ctrl ''Discovery'' ''discovery.DiscoveryInterface''"

definition DiscoveryV1 :: "implements \<Rightarrow> Controller \<Rightarrow> go_panic + go_value" where
  "DiscoveryV1 impl ctrl = mock_base_method impl ctrl ''DiscoveryV1'' ''v18.DiscoveryV1Interface''"

definition DiscoveryV1beta1 :: "implements \<Rightarrow> Controller \<Rightarrow> go_panic + go_value" where
  "DiscoveryV1beta1 impl ctrl = mock_base_method impl ctrl ''DiscoveryV1beta1'' ''v1beta16.DiscoveryV1beta1Interface''"

definition EventsV1 :: "implements \<Rightarrow> Controller \<Rightarrow> go_panic + go_value" where
  "EventsV1 impl ctrl = mock_base_method impl ctrl ''EventsV1'' ''v19.EventsV1Interface''"

definition EventsV1beta1 :: "implements \<Rightarrow> Controller \<Rightarrow> go_panic + go_value" where
  "EventsV1beta1 impl ctrl = mock_base_method impl ctrl ''EventsV1beta1'' ''v1beta17.EventsV1beta1Interface''"

definition ExtensionsV1beta1 :: "implements \<Rightarrow> Controller \<Rightarrow> go_panic + go_value" where
  "ExtensionsV1beta1 impl ctrl = mock_base_method impl ctrl ''ExtensionsV1beta1'' ''v1beta18.ExtensionsV1beta1Interface''"

definition FlowcontrolV1 :: "implements \<Rightarrow> Controller \<Rightarrow> go_panic + go_value" where
  "FlowcontrolV1 impl ctrl = mock_base_method impl ctrl ''FlowcontrolV1'' ''v110.FlowcontrolV1Interface''"

definition FlowcontrolV1beta1 :: "implements \<Rightarrow> Controller \<Rightarrow> go_panic + go_value" where
  "FlowcontrolV1beta1 impl ctrl = mock_base_method impl ctrl ''FlowcontrolV1beta1'' ''v1beta19.FlowcontrolV1beta1Interface''"

definition FlowcontrolV1beta2 :: "implements \<Rightarrow> Controller \<Rightarrow> go_panic + go_value" where
  "FlowcontrolV1beta2 impl ctrl = mock_base_method impl ctrl ''FlowcontrolV1beta2'' ''v1beta20.FlowcontrolV1beta2Interface''"

definition FlowcontrolV1beta3 :: "implements \<Rightarrow> Controller \<Rightarrow> go_panic + go_value" where
  "FlowcontrolV1beta3 impl ctrl = mock_base_method impl ctrl ''FlowcontrolV1beta3'' ''v1beta3.FlowcontrolV1beta3Interface''"

definition InternalV1alpha1 :: "implements \<Rightarrow> Controller \<Rightarrow> go_panic + go_value" where
  "InternalV1alpha1 impl ctrl = mock_base_method impl ctrl ''InternalV1alpha1'' ''v1alpha10.InternalV1alpha1Interface''"

definition NetworkingV1 :: "implements \<Rightarrow> Controller \<Rightarrow> go_panic + go_value" where
  "NetworkingV1 impl ctrl = mock_base_method impl ctrl ''NetworkingV1'' ''v111.NetworkingV1Interface''"

definition NetworkingV1alpha1 :: "implements \<Rightarrow> Controller \<Rightarrow> go_panic + go_value" where
  "NetworkingV1alpha1 impl ctrl = mock_base_method impl ctrl ''NetworkingV1alpha1'' ''v1alpha14.NetworkingV1alpha1Interface''"

definition NetworkingV1beta1 :: "implements \<Rightarrow> Controller \<Rightarrow> go_panic + go_value" where
  "NetworkingV1beta1 impl ctrl = mock_base_method impl ctrl ''NetworkingV1beta1'' ''v1beta110.NetworkingV1beta1Interface''"

definition NodeV1 :: "implements \<Rightarrow> Controller \<Rightarrow> go_panic + go_value" where
  "NodeV1 impl ctrl = mock_base_method impl ctrl ''NodeV1'' ''v112.NodeV1Interface''"

definition NodeV1alpha1 :: "implements \<Rightarrow> Controller \<Rightarrow> go_panic + go_value" where
  "NodeV1alpha1 impl ctrl = mock_base_method impl ctrl ''NodeV1alpha1'' ''v1alpha15.NodeV1alpha1Interface''"

definition NodeV1beta1 :: "implements \<Rightarrow> Controller \<Rightarrow> go_panic + go_value" where
  "NodeV1beta1 impl ctrl = mock_base_method impl ctrl ''NodeV1beta1'' ''v1beta111.NodeV1beta1Interface''"

definition PolicyV1 :: "implements \<Rightarrow> Controller \<Rightarrow> go_panic + go_value" where
  "PolicyV1 impl ctrl = mock_base_method impl ctrl ''PolicyV1'' ''v113.PolicyV1Interface''"

definition PolicyV1beta1 :: "implements \<Rightarrow> Controller \<Rightarrow> go_panic + go_value" where
  "PolicyV1beta1 impl ctrl = mock_base_method impl ctrl ''PolicyV1beta1'' ''v1beta112.PolicyV1beta1Interface''"

definition RbacV1 :: "implements \<Rightarrow> Controller \<Rightarrow> go_panic + go_value" where
  "RbacV1 impl ctrl = mock_base_method impl ctrl ''RbacV1'' ''v114.RbacV1Interface''"

definition RbacV1alpha1 :: "implements \<Rightarrow> Controller \<Rightarrow> go_panic + go_value" where
  "RbacV1alpha1 impl ctrl = mock_base_method impl ctrl ''RbacV1alpha1'' ''v1alpha16.RbacV1alpha1Interface''"

definition RbacV1beta1 :: "implements \<Rightarrow> Controller \<Rightarrow> go_panic + go_value" where
  "RbacV1beta1 impl ctrl = mock_base_method impl ctrl ''RbacV1beta1'' ''v1beta113.RbacV1beta1Interface''"

definition ResourceV1alpha3 :: "implements \<Rightarrow> Controller \<Rightarrow> go_panic + go_value" where
  "ResourceV1alpha3 impl ctrl = mock_base_method impl ctrl ''ResourceV1alpha3'' ''v1alpha3.ResourceV1alpha3Interface''"

definition SchedulingV1 :: "implements \<Rightarrow> Controller \<Rightarrow> go_panic + go_value" where
  "SchedulingV1 impl ctrl = mock_base_method impl ctrl ''SchedulingV1'' ''v115.SchedulingV1Interface''"

definition SchedulingV1alpha1 :: "implements \<Rightarrow> Controller \<Rightarrow> go_panic + go_value" where
  "SchedulingV1alpha1 impl ctrl = mock_base_method impl ctrl ''SchedulingV1alpha1'' ''v1alpha17.SchedulingV1alpha1Interface''"

definition SchedulingV1beta1 :: "implements \<Rightarrow> Controller \<Rightarrow> go_panic + go_value" where
  "SchedulingV1beta1 impl ctrl = mock_base_method impl ctrl ''SchedulingV1beta1'' ''v1beta114.SchedulingV1beta1Interface''"

definition StorageV1 :: "implements \<Rightarrow> Controller \<Rightarrow> go_panic + go_value" where
  "StorageV1 impl ctrl = mock_base_method impl ctrl ''StorageV1'' ''v116.StorageV1Interface''"

definition StorageV1alpha1 :: "implements \<Rightarrow> Controller \<Rightarrow> go_panic + go_value" where
  "StorageV1alpha1 impl ctrl = mock_base_method impl ctrl ''StorageV1alpha1'' ''v1alpha18.StorageV1alpha1Interface''"

definition StorageV1beta1 :: "implements \<Rightarrow> Controller \<Rightarrow> go_panic + go_value" where
  "StorageV1beta1 impl ctrl = mock_base_method impl ctrl ''StorageV1beta1'' ''v1beta115.StorageV1beta1Interface''"

definition StoragemigrationV1alpha1 :: "implements \<Rightarrow> Controller \<Rightarrow> go_panic + go_value" where
  "StoragemigrationV1alpha1 impl ctrl = mock_base_method impl ctrl ''StoragemigrationV1alpha1'' ''v1alpha19.StoragemigrationV1alpha1Interface''"

text \<open>Every base method of the mock, with the method name it passes to the controller and
  the interface type it asserts.\<close>

definition MockKubernetesClient_methods ::
  "((implements \<Rightarrow> Controller \<Rightarrow> go_panic + go_value) \<times> string \<times> go_type) list" where
  "MockKubernetesClient_methods =
  [(AdmissionregistrationV1, ''AdmissionregistrationV1'', ''v1.AdmissionregistrationV1Interface''),
   (AdmissionregistrationV1alpha1, ''AdmissionregistrationV1alpha1'', ''v1alpha1.AdmissionregistrationV1alpha1Interface''),
   (AdmissionregistrationV1beta1, ''AdmissionregistrationV1beta1'', ''v1beta1.AdmissionregistrationV1beta1Interface''),
   (AppsV1, ''AppsV1'', ''v10.AppsV1Interface''),
   (AppsV1beta1, ''AppsV1beta1'', ''v1beta10.AppsV1beta1Interface''),
   (AppsV1beta2, ''AppsV1beta2'', ''v1beta2.AppsV1beta2Interface''),
   (AuthenticationV1, ''AuthenticationV1'', ''v11.AuthenticationV1Interface''),
   (AuthenticationV1alpha1, ''AuthenticationV1alpha1'', ''v1alpha11.AuthenticationV1alpha1Interface''),
   (AuthenticationV1beta1, ''AuthenticationV1beta1'', ''v1beta11.AuthenticationV1beta1Interface''),
   (AuthorizationV1, ''AuthorizationV1'', ''v12.AuthorizationV1Interface''),
   (AuthorizationV1beta1, ''AuthorizationV1beta1'', ''v1beta12.AuthorizationV1beta1Interface''),
   (AutoscalingV1, ''AutoscalingV1'', ''v13.AutoscalingV1Interface''),
   (AutoscalingV2, ''AutoscalingV2'', ''v2.AutoscalingV2Interface''),
   (AutoscalingV2beta1, ''AutoscalingV2beta1'', ''v2beta1.AutoscalingV2beta1Interface''),
   (AutoscalingV2beta2, ''AutoscalingV2beta2'', ''v2beta2.AutoscalingV2beta2Interface''),
   (BatchV1, ''BatchV1'', ''v14.BatchV1Interface''),
   (BatchV1beta1, ''BatchV1beta1'', ''v1beta13.BatchV1beta1Interface''),
   (CertificatesV1, ''CertificatesV1'', ''v15.CertificatesV1Interface''),
   (CertificatesV1alpha1, ''CertificatesV1alpha1'', ''v1alpha12.CertificatesV1alpha1Interface''),
   (CertificatesV1beta1, ''CertificatesV1beta1'', ''v1beta14.CertificatesV1beta1Interface''),
   (CoordinationV1, ''CoordinationV1'', ''v16.CoordinationV1Interface''),
   (CoordinationV1alpha1, ''CoordinationV1alpha1'', ''v1alpha13.CoordinationV1alpha1Interface''),
   (CoordinationV1beta1, ''CoordinationV1beta1'', ''v1beta15.CoordinationV1beta1Interface''),
   (CoreV1, ''CoreV1'', ''v17.CoreV1Interface''),
   (Discovery, ''Discovery'', ''discovery.DiscoveryInterface''),
   (DiscoveryV1, ''DiscoveryV1'', ''v18.DiscoveryV1Interface''),
   (DiscoveryV1beta1, ''DiscoveryV1beta1'', ''v1beta16.DiscoveryV1beta1Interface''),
   (EventsV1, ''EventsV1'', ''v19.EventsV1Interface''),
   (EventsV1beta1, ''EventsV1beta1'', ''v1beta17.EventsV1beta1Interface''),
   (ExtensionsV1beta1, ''ExtensionsV1beta1'', ''v1beta18.ExtensionsV1beta1Interface''),
   (FlowcontrolV1, ''FlowcontrolV1'', ''v110.FlowcontrolV1Interface''),
   (FlowcontrolV1beta1, ''FlowcontrolV1beta1'', ''v1beta19.FlowcontrolV1beta1Interface''),
   (FlowcontrolV1beta2, ''FlowcontrolV1beta2'', ''v1beta20.FlowcontrolV1beta2Interface''),
   (FlowcontrolV1beta3, ''FlowcontrolV1beta3'', ''v1beta3.FlowcontrolV1beta3Interface''),
   (InternalV1alpha1, ''InternalV1alpha1'', ''v1alpha10.InternalV1alpha1Interface''),
   (NetworkingV1, ''NetworkingV1'', ''v111.NetworkingV1Interface''),
   (NetworkingV1alpha1, ''NetworkingV1alpha1'', ''v1alpha14.NetworkingV1alpha1Interface''),
   (NetworkingV1beta1, ''NetworkingV1beta1'', ''v1beta110.NetworkingV1beta1Interface''),
   (NodeV1, ''NodeV1'', ''v112.NodeV1Interface''),
   (NodeV1alpha1, ''NodeV1alpha1'', ''v1alpha15.NodeV1alpha1Interface''),
   (NodeV1beta1, ''NodeV1beta1'', ''v1beta111.NodeV1beta1Interface''),
   (PolicyV1, ''PolicyV1'', ''v113.PolicyV1Interface''),
   (PolicyV1beta1, ''PolicyV1beta1'', ''v1beta112.PolicyV1beta1Interface''),
   (RbacV1, ''RbacV1'', ''v114.RbacV1Interface''),
   (RbacV1alpha1, ''RbacV1alpha1'', ''v1alpha16.RbacV1alpha1Interface''),
   (RbacV1beta1, ''RbacV1beta1'', ''v1beta113.RbacV1beta1Interface''),
   (ResourceV1alpha3, ''ResourceV1alpha3'', ''v1alpha3.ResourceV1alpha3Interface''),
   (SchedulingV1, ''SchedulingV1'', ''v115.SchedulingV1Interface''),
   (SchedulingV1alpha1, ''SchedulingV1alpha1'', ''v1alpha17.SchedulingV1alpha1Interface''),
   (SchedulingV1beta1, ''SchedulingV1beta1'', ''v1beta114.SchedulingV1beta1Interface''),
   (StorageV1, ''StorageV1'', ''v116.StorageV1Interface''),
   (StorageV1alpha1, ''StorageV1alpha1'', ''v1alpha18.StorageV1alpha1Interface''),
   (StorageV1beta1, ''StorageV1beta1'', ''v1beta115.StorageV1beta1Interface''),
   (StoragemigrationV1alpha1, ''StoragemigrationV1alpha1'', ''v1alpha19.StoragemigrationV1alpha1Interface'')]"

text \<open>Whether a value has (implements) an interface type.\<close>

definition has_type :: "implements \<Rightarrow> go_value \<Rightarrow> go_type \<Rightarrow> bool" where
  "has_type impl v T = (case v of GoNil \<Rightarrow> False | GoDyn d _ \<Rightarrow> impl d T)"

text \<open>What the mock promises of a base method: with a recorded return value in the slice,
  the method returns it if it has the declared type and the nil interface otherwise.\<close>

definition delegates_without_panic ::
  "(implements \<Rightarrow> Controller \<Rightarrow> go_panic + go_value) \<times> string \<times> go_type \<Rightarrow> bool" where
  "delegates_without_panic m =
     (case m of (f, name, T) \<Rightarrow>
        \<forall>impl ctrl r0 rest. ctrl name = Returns (r0 # rest) \<longrightarrow>
          f impl ctrl = Inr (if has_type impl r0 T then r0 else GoNil))"

section \<open>The parameter E2E suite (tests/e2e, the file with the [param:...] tests)\<close>

text \<open>
  A Ginkgo test body ends in one of three ways: it runs to its end, a Gomega \<open>Expect\<close>
  fails (which aborts the body at once), or the body calls \<open>Skip\<close>.
\<close>

datatype verdict = Passed | Failed string | Skipped string

datatype api_error = ApiError string

subsection \<open>Kubernetes objects the tests read\<close>

record Container =
  Name :: string
  Args :: "string list"

record PodSpec =
  Containers :: "Container list"

record Pod =
  Spec :: PodSpec

text \<open>\<open>cs.CoreV1().Pods(namespace).List(ctx, ListOptions{LabelSelector: selector})\<close>:
  the items of the returned list, or the error.\<close>

type_synonym clientset = "string \<Rightarrow> string \<Rightarrow> api_error + Pod list"

subsection \<open>[param:debugLogs]: "should have maximum verbosity in all containers"\<close>

text \<open>The innermost loop, with its \<open>break\<close> at the first matching argument.\<close>

fun hasDebugLevel :: "string list \<Rightarrow> bool" where
  "hasDebugLevel [] = False"
| "hasDebugLevel (arg # args) =
     (if arg = ''-v=7'' \<or> arg = ''--v=7'' then True else hasDebugLevel args)"

text \<open>The loop over \<open>pod.Spec.Containers\<close>: the \<open>Expect\<close> sits under
  \<open>if container.Name == "ebs-plugin"\<close>.\<close>

fun debugLogs_containers :: "Container list \<Rightarrow> verdict" where
  "debugLogs_containers [] = Passed"
| "debugLogs_containers (container # rest) =
     (if Name container = ''ebs-plugin''
      then (if hasDebugLevel (Args container) then debugLogs_containers rest
            else Failed ''Controller ebs-plugin should have -v=7 arg when debugLogs=true'')
      else debugLogs_containers rest)"

fun debugLogs_pods :: "Pod list \<Rightarrow> verdict" where
  "debugLogs_pods [] = Passed"
| "debugLogs_pods (pod # rest) =
     (case debugLogs_containers (Containers (Spec pod)) of
        Passed \<Rightarrow> debugLogs_pods rest
      | v \<Rightarrow> v)"

definition debugLogs_test :: "clientset \<Rightarrow> verdict" where
  "debugLogs_test cs =
     (case cs ''kube-system'' ''app=ebs-csi-controller'' of
        Inl err \<Rightarrow> Failed ''Expected success, but got an error''
      | Inr items \<Rightarrow>
          if items = [] then Failed ''Expected not to be empty''
          else debugLogs_pods items)"

text \<open>The ebs-plugin containers of the listed pods, pod by pod.\<close>

definition ebs_plugin_containers :: "Pod list \<Rightarrow> Container list list" where
  "ebs_plugin_containers pods =
     map (\<lambda>pod. filter (\<lambda>c. Name c = ''ebs-plugin'') (Containers (Spec pod))) pods"

subsection \<open>The AWS tag tests: the three \<open>ValidateFunc\<close> closures\<close>

text \<open>\<open>types.Filter\<close> of the EC2 SDK (its fields are \<open>Name\<close> and \<open>Values\<close>).\<close>

record Filter =
  FilterName :: string
  FilterValues :: "string list"

datatype Volume = Volume string

text \<open>\<open>ec2Client.DescribeVolumes(ctx, &DescribeVolumesInput{Filters: filters})\<close>: the
  \<open>Volumes\<close> of the output, or the error.\<close>

type_synonym ec2_client = "Filter list \<Rightarrow> api_error + Volume list"

text \<open>What a test does to the outside world, in the order it does it: a request to EC2
  (operation name and filters) or a request to the Kubernetes API.\<close>

datatype verb = Get | List | Watch | Create | Update | Patch | Delete | DeleteCollection

datatype client_kind = Typed | Dynamic

record k8s_call =
  line :: nat
  client :: client_kind
  api :: string
  namespace :: "string option"
  verb :: verb
  target :: string

datatype event = EC2 string "Filter list" | K8S k8s_call | TestsuiteRun nat

definition validate_extraCreateMetadata :: "string \<Rightarrow> ec2_client \<Rightarrow> event list \<times> verdict" where
  "validate_extraCreateMetadata ns_Name ec2Client =
     (let filters = [\<lparr>FilterName = ''tag:kubernetes.io/created-for/pvc/namespace'',
                       FilterValues = [ns_Name]\<rparr>]
      in case ec2Client filters of
           Inl err \<Rightarrow> ([EC2 ''DescribeVolumes'' filters], Failed ''Expected success, but got an error'')
         | Inr volumes \<Rightarrow>
             ([EC2 ''DescribeVolumes'' filters],
              if length volumes \<ge> 1 then Passed
              else Failed ''Should find volume with PVC namespace tag''))"

definition validate_k8sTagClusterId :: "ec2_client \<Rightarrow> event list \<times> verdict" where
  "validate_k8sTagClusterId ec2Client =
     (let filters = [\<lparr>FilterName = ''tag:kubernetes.io/cluster/e2e-param-test'',
                       FilterValues = [''owned'']\<rparr>]
      in case ec2Client filters of
           Inl err \<Rightarrow> ([EC2 ''DescribeVolumes'' filters], Failed ''Expected success, but got an error'')
         | Inr volumes \<Rightarrow>
             ([EC2 ''DescribeVolumes'' filters],
              if length volumes \<ge> 1 then Passed
              else Failed ''Should find volume with cluster ID tag''))"

definition validate_extraVolumeTags :: "ec2_client \<Rightarrow> event list \<times> verdict" where
  "validate_extraVolumeTags ec2Client =
     (let filters = [\<lparr>FilterName = ''tag:TestKey'', FilterValues = [''TestValue'']\<rparr>]
      in case ec2Client filters of
           Inl err \<Rightarrow> ([EC2 ''DescribeVolumes'' filters], Failed ''Expected success, but got an error'')
         | Inr volumes \<Rightarrow>
             ([EC2 ''DescribeVolumes'' filters],
              if length volumes \<ge> 1 then Passed
              else Failed ''Should find volume with extra tag TestKey=TestValue''))"

definition is_tag_filter :: "Filter \<Rightarrow> bool" where
  "is_tag_filter f = (take 4 (FilterName f) = ''tag:'')"

text \<open>A validation function issues one DescribeVolumes request with one tag filter and
  passes exactly when the request succeeds with at least one volume.\<close>

definition describes_by_one_tag :: "(ec2_client \<Rightarrow> event list \<times> verdict) \<Rightarrow> bool" where
  "describes_by_one_tag validate =
     (\<exists>flt. is_tag_filter flt \<and>
        (\<forall>ec2Client.
           fst (validate ec2Client) = [EC2 ''DescribeVolumes'' [flt]] \<and>
           (snd (validate ec2Client) = Passed) =
             (\<exists>volumes. ec2Client [flt] = Inr volumes \<and> length volumes \<ge> 1)))"

subsection \<open>The call sites of the suite\<close>

text \<open>
  Every \<open>It\<close> body of the file, with the requests it issues in program order. A
  Kubernetes call is recorded with its source line, the client it goes through, the API
  group and resource, the namespace (\<open>None\<close> for a cluster-scoped call), the verb,
  and the object name or label selector. After such a call the body either asserts that no
  error occurred (\<open>Expect(err).NotTo(HaveOccurred())\<close>) or skips the test on an error
  (\<open>if err != nil { Skip(...) }\<close>). Four bodies hand over to
  \<open>testsuites.DynamicallyProvisionedCmdVolumeTest.Run\<close>, three of them with a
  \<open>ValidateFunc\<close>.
\<close>

datatype on_error = FailOnError | SkipOnError

datatype step =
    Call k8s_call on_error
  | RunCmdVolumeTest nat "(ec2_client \<Rightarrow> event list \<times> verdict) option"

record test_case =
  label :: string
  title :: string
  steps :: "step list"

definition parameters_suite :: "string \<Rightarrow> test_case list" where
  "parameters_suite ns_Name =
   [\<lparr>label = ''[ebs-csi-e2e] [single-az] [param:extraCreateMetadata]'',
      title = ''should add PVC namespace tag to provisioned volume'',
      steps = [RunCmdVolumeTest 99 (Some (validate_extraCreateMetadata ns_Name))]\<rparr>,
    \<lparr>label = ''[ebs-csi-e2e] [single-az] [param:k8sTagClusterId]'',
      title = ''should tag volume with cluster ID'',
      steps = [RunCmdVolumeTest 157 (Some validate_k8sTagClusterId)]\<rparr>,
    \<lparr>label = ''[ebs-csi-e2e] [single-az] [param:extraVolumeTags]'',
      title = ''should add extra volume tags from Helm values'',
      steps = [RunCmdVolumeTest 215 (Some validate_extraVolumeTags)]\<rparr>,
    \<lparr>label = ''[ebs-csi-e2e] [single-az] [param:controllerMetrics]'',
      title = ''should expose metrics endpoint on controller'',
      steps = [Call \<lparr>line = 231, client = Typed, api = ''CoreV1.Pods'',
              namespace = Some ''kube-system'', verb = List, target = ''app=ebs-csi-controller''\<rparr> FailOnError]\<rparr>,
    \<lparr>label = ''[ebs-csi-e2e] [single-az] [param:nodeMetrics]'',
      title = ''should expose metrics endpoint on node pods'',
      steps = [Call \<lparr>line = 265, client = Typed, api = ''CoreV1.Pods'',
              namespace = Some ''kube-system'', verb = List, target = ''app=ebs-csi-node''\<rparr> FailOnError]\<rparr>,
    \<lparr>label = ''[ebs-csi-e2e] [single-az] [param:batching]'',
      title = ''should have batching enabled in controller args'',
      steps = [Call \<lparr>line = 298, client = Typed, api = ''CoreV1.Pods'',
              namespace = Some ''kube-system'', verb = List, target = ''app=ebs-csi-controller''\<rparr> FailOnError]\<rparr>,
    \<lparr>label = ''[ebs-csi-e2e] [single-az] [param:defaultFsType]'',
      title = ''should use xfs as default filesystem when not specified in StorageClass'',
      steps = [RunCmdVolumeTest 359 None]\<rparr>,
    \<lparr>label = ''[ebs-csi-e2e] [single-az] [param:controllerLoggingFormat]'',
      title = ''should have json logging format in controller args'',
      steps = [Call \<lparr>line = 374, client = Typed, api = ''CoreV1.Pods'',
              namespace = Some ''kube-system'', verb = List, target = ''app=ebs-csi-controller''\<rparr> FailOnError]\<rparr>,
    \<lparr>label = ''[ebs-csi-e2e] [single-az] [param:nodeLoggingFormat]'',
      title = ''should have json logging format in node args'',
      steps = [Call \<lparr>line = 408, client = Typed, api = ''CoreV1.Pods'',
              namespace = Some ''kube-system'', verb = List, target = ''app=ebs-csi-node''\<rparr> FailOnError]\<rparr>,
    \<lparr>label = ''[ebs-csi-e2e] [single-az] [param:volumeModification]'',
      title = ''should have volumemodifier sidecar running'',
      steps = [Call \<lparr>line = 442, client = Typed, api = ''CoreV1.Pods'',
              namespace = Some ''kube-system'', verb = List, target = ''app=ebs-csi-controller''\<rparr> FailOnError]\<rparr>,
    \<lparr>label = ''[ebs-csi-e2e] [single-az] [param:metadataLabeler]'',
      title = ''should label nodes with EBS volume and ENI counts'',
      steps = [Call \<lparr>line = 472, client = Typed, api = ''CoreV1.Nodes'',
              namespace = None, verb = List, target = ''''\<rparr> FailOnError]\<rparr>,
    \<lparr>label = ''[ebs-csi-e2e] [single-az] [param:controllerLogLevel]'',
      title = ''should have log level 4 in controller args'',
      steps = [Call \<lparr>line = 506, client = Typed, api = ''CoreV1.Pods'',
              namespace = Some ''kube-system'', verb = List, target = ''app=ebs-csi-controller''\<rparr> FailOnError]\<rparr>,
    \<lparr>label = ''[ebs-csi-e2e] [single-az] [param:nodeLogLevel]'',
      title = ''should have log level 4 in node args'',
      steps = [Call \<lparr>line = 540, client = Typed, api = ''CoreV1.Pods'',
              namespace = Some ''kube-system'', verb = List, target = ''app=ebs-csi-node''\<rparr> FailOnError]\<rparr>,
    \<lparr>label = ''[ebs-csi-e2e] [single-az] [param:provisionerLogLevel]'',
      title = ''should have log level 4 in provisioner sidecar args'',
      steps = [Call \<lparr>line = 574, client = Typed, api = ''CoreV1.Pods'',
              namespace = Some ''kube-system'', verb = List, target = ''app=ebs-csi-controller''\<rparr> FailOnError]\<rparr>,
    \<lparr>label = ''[ebs-csi-e2e] [single-az] [param:attacherLogLevel]'',
      title = ''should have log level 4 in attacher sidecar args'',
      steps = [Call \<lparr>line = 608, client = Typed, api = ''CoreV1.Pods'',
              namespace = Some ''kube-system'', verb = List, target = ''app=ebs-csi-controller''\<rparr> FailOnError]\<rparr>,
    \<lparr>label = ''[ebs-csi-e2e] [single-az] [param:snapshotterLogLevel]'',
      title = ''should have log level 4 in snapshotter sidecar args'',
      steps = [Call \<lparr>line = 642, client = Typed, api = ''CoreV1.Pods'',
              namespace = Some ''kube-system'', verb = List, target = ''app=ebs-csi-controller''\<rparr> FailOnError]\<rparr>,
    \<lparr>label = ''[ebs-csi-e2e] [single-az] [param:resizerLogLevel]'',
      title = ''should have log level 4 in resizer sidecar args'',
      steps = [Call \<lparr>line = 676, client = Typed, api = ''CoreV1.Pods'',
              namespace = Some ''kube-system'', verb = List, target = ''app=ebs-csi-controller''\<rparr> FailOnError]\<rparr>,
    \<lparr>label = ''[ebs-csi-e2e] [single-az] [param:nodeDriverRegistrarLogLevel]'',
      title = ''should have log level 4 in node-driver-registrar sidecar args'',
      steps = [Call \<lparr>line = 710, client = Typed, api = ''CoreV1.Pods'',
              namespace = Some ''kube-system'', verb = List, target = ''app=ebs-csi-node''\<rparr> FailOnError]\<rparr>,
    \<lparr>label = ''[ebs-csi-e2e] [single-az] [param:volumemodifierLogLevel]'',
      title = ''should have log level 4 in volumemodifier sidecar args'',
      steps = [Call \<lparr>line = 744, client = Typed, api = ''CoreV1.Pods'',
              namespace = Some ''kube-system'', verb = List, target = ''app=ebs-csi-controller''\<rparr> FailOnError]\<rparr>,
    \<lparr>label = ''[ebs-csi-e2e] [single-az] [param:metadataLabelerLogLevel]'',
      title = ''should have log level 4 in metadata-labeler sidecar args'',
      steps = [Call \<lparr>line = 778, client = Typed, api = ''CoreV1.Pods'',
              namespace = Some ''kube-system'', verb = List, target = ''app=ebs-csi-node''\<rparr> FailOnError]\<rparr>,
    \<lparr>label = ''[ebs-csi-e2e] [single-az] [param:storageClasses]'',
      title = ''should create StorageClass from Helm values'',
      steps = [Call \<lparr>line = 812, client = Typed, api = ''StorageV1.StorageClasses'',
              namespace = None, verb = Get, target = ''test-sc''\<rparr> FailOnError]\<rparr>,
    \<lparr>label = ''[ebs-csi-e2e] [single-az] [param:volumeSnapshotClasses]'',
      title = ''should create VolumeSnapshotClass from Helm values'',
      steps = [Call \<lparr>line = 828, client = Dynamic, api = ''snapshot.storage.k8s.io/v1/volumesnapshotclasses'',
              namespace = None, verb = List, target = ''''\<rparr> SkipOnError,
        Call \<lparr>line = 839, client = Dynamic, api = ''snapshot.storage.k8s.io/v1/volumesnapshotclasses'',
              namespace = None, verb = Get, target = ''test-vsc''\<rparr> FailOnError]\<rparr>,
    \<lparr>label = ''[ebs-csi-e2e] [single-az] [param:defaultStorageClass]'',
      title = ''should create default StorageClass'',
      steps = [Call \<lparr>line = 863, client = Typed, api = ''StorageV1.StorageClasses'',
              namespace = None, verb = Get, target = ''ebs-csi-default-sc''\<rparr> FailOnError]\<rparr>,
    \<lparr>label = ''[ebs-csi-e2e] [single-az] [param:reservedVolumeAttachments]'',
      title = ''should have reserved volume attachments in node args'',
      steps = [Call \<lparr>line = 880, client = Typed, api = ''CoreV1.Pods'',
              namespace = Some ''kube-system'', verb = List, target = ''app=ebs-csi-node''\<rparr> FailOnError]\<rparr>,
    \<lparr>label = ''[ebs-csi-e2e] [single-az] [param:volumeAttachLimit]'',
      title = ''should have volume attach limit in node args'',
      steps = [Call \<lparr>line = 914, client = Typed, api = ''CoreV1.Pods'',
              namespace = Some ''kube-system'', verb = List, target = ''app=ebs-csi-node''\<rparr> FailOnError]\<rparr>,
    \<lparr>label = ''[ebs-csi-e2e] [single-az] [param:hostNetwork]'',
      title = ''should run node pods on host network'',
      steps = [Call \<lparr>line = 948, client = Typed, api = ''CoreV1.Pods'',
              namespace = Some ''kube-system'', verb = List, target = ''app=ebs-csi-node''\<rparr> FailOnError]\<rparr>,
    \<lparr>label = ''[ebs-csi-e2e] [single-az] [param:debugLogs]'',
      title = ''should have maximum verbosity in all containers'',
      steps = [Call \<lparr>line = 971, client = Typed, api = ''CoreV1.Pods'',
              namespace = Some ''kube-system'', verb = List, target = ''app=ebs-csi-controller''\<rparr> FailOnError]\<rparr>,
    \<lparr>label = ''[ebs-csi-e2e] [single-az] [param:sdkDebugLog]'',
      title = ''should have AWS SDK debug logging enabled'',
      steps = [Call \<lparr>line = 1005, client = Typed, api = ''CoreV1.Pods'',
              namespace = Some ''kube-system'', verb = List, target = ''app=ebs-csi-controller''\<rparr> FailOnError]\<rparr>,
    \<lparr>label = ''[ebs-csi-e2e] [single-az] [param:useOldCSIDriver]'',
      title = ''should use CSIDriver without fsGroupPolicy'',
      steps = [Call \<lparr>line = 1039, client = Typed, api = ''StorageV1.CSIDrivers'',
              namespace = None, verb = Get, target = ''ebs.csi.aws.com''\<rparr> FailOnError]\<rparr>,
    \<lparr>label = ''[ebs-csi-e2e] [single-az] [param:legacyXFS]'',
      title = ''should have legacy XFS flag in node args'',
      steps = [Call \<lparr>line = 1056, client = Typed, api = ''CoreV1.Pods'',
              namespace = Some ''kube-system'', verb = List, target = ''app=ebs-csi-node''\<rparr> FailOnError]\<rparr>,
    \<lparr>label = ''[ebs-csi-e2e] [single-az] [param:selinux]'',
      title = ''should have SELinux mount option enabled'',
      steps = [Call \<lparr>line = 1090, client = Typed, api = ''CoreV1.Pods'',
              namespace = Some ''kube-system'', verb = List, target = ''app=ebs-csi-node''\<rparr> FailOnError]\<rparr>,
    \<lparr>label = ''[ebs-csi-e2e] [single-az] [param:fips]'',
      title = ''should use FIPS-compliant image'',
      steps = [Call \<lparr>line = 1130, client = Typed, api = ''CoreV1.Pods'',
              namespace = Some ''kube-system'', verb = List, target = ''app=ebs-csi-controller''\<rparr> FailOnError]\<rparr>,
    \<lparr>label = ''[ebs-csi-e2e] [single-az] [param:snapshotterForceEnable]'',
      title = ''should have snapshotter sidecar running'',
      steps = [Call \<lparr>line = 1161, client = Typed, api = ''CoreV1.Pods'',
              namespace = Some ''kube-system'', verb = List, target = ''app=ebs-csi-controller''\<rparr> FailOnError]\<rparr>,
    \<lparr>label = ''[ebs-csi-e2e] [single-az] [param:controllerUserAgentExtra]'',
      title = ''should have user agent extra in controller args'',
      steps = [Call \<lparr>line = 1191, client = Typed, api = ''CoreV1.Pods'',
              namespace = Some ''kube-system'', verb = List, target = ''app=ebs-csi-controller''\<rparr> FailOnError]\<rparr>,
    \<lparr>label = ''[ebs-csi-e2e] [single-az] [param:controllerEnablePrometheusAnnotations]'',
      title = ''should have prometheus annotations on controller metrics service'',
      steps = [Call \<lparr>line = 1225, client = Typed, api = ''CoreV1.Services'',
              namespace = Some ''kube-system'', verb = Get, target = ''ebs-csi-controller-metrics''\<rparr> SkipOnError]\<rparr>,
    \<lparr>label = ''[ebs-csi-e2e] [single-az] [param:nodeEnablePrometheusAnnotations]'',
      title = ''should have prometheus annotations on node metrics service'',
      steps = [Call \<lparr>line = 1245, client = Typed, api = ''CoreV1.Services'',
              namespace = Some ''kube-system'', verb = Get, target = ''ebs-csi-node-metrics''\<rparr> SkipOnError]\<rparr>,
    \<lparr>label = ''[ebs-csi-e2e] [single-az] [param:controllerPodDisruptionBudget]'',
      title = ''should have PodDisruptionBudget for controller'',
      steps = [Call \<lparr>line = 1265, client = Typed, api = ''PolicyV1.PodDisruptionBudgets'',
              namespace = Some ''kube-system'', verb = Get, target = ''ebs-csi-controller''\<rparr> FailOnError]\<rparr>,
    \<lparr>label = ''[ebs-csi-e2e] [single-az] [param:nodeKubeletPath]'',
      title = ''should have custom kubelet path mounted'',
      steps = [Call \<lparr>line = 1282, client = Typed, api = ''CoreV1.Pods'',
              namespace = Some ''kube-system'', verb = List, target = ''app=ebs-csi-node''\<rparr> FailOnError]\<rparr>,
    \<lparr>label = ''[ebs-csi-e2e] [single-az] [param:nodeTolerateAllTaints]'',
      title = ''should have toleration for all taints'',
      steps = [Call \<lparr>line = 1316, client = Typed, api = ''CoreV1.Pods'',
              namespace = Some ''kube-system'', verb = List, target = ''app=ebs-csi-node''\<rparr> FailOnError]\<rparr>,
    \<lparr>label = ''[ebs-csi-e2e] [single-az] [param:provisionerLeaderElection]'',
      title = ''should have leader election enabled in provisioner args'',
      steps = [Call \<lparr>line = 1346, client = Typed, api = ''CoreV1.Pods'',
              namespace = Some ''kube-system'', verb = List, target = ''app=ebs-csi-controller''\<rparr> FailOnError]\<rparr>,
    \<lparr>label = ''[ebs-csi-e2e] [single-az] [param:attacherLeaderElection]'',
      title = ''should have leader election enabled in attacher args'',
      steps = [Call \<lparr>line = 1380, client = Typed, api = ''CoreV1.Pods'',
              namespace = Some ''kube-system'', verb = List, target = ''app=ebs-csi-controller''\<rparr> FailOnError]\<rparr>,
    \<lparr>label = ''[ebs-csi-e2e] [single-az] [param:resizerLeaderElection]'',
      title = ''should have leader election enabled in resizer args'',
      steps = [Call \<lparr>line = 1414, client = Typed, api = ''CoreV1.Pods'',
              namespace = Some ''kube-system'', verb = List, target = ''app=ebs-csi-controller''\<rparr> FailOnError]\<rparr>,
    \<lparr>label = ''[ebs-csi-e2e] [single-az] [param:nodeDisableMutation]'',
      title = ''should have node service account without mutating permissions'',
      steps = [Call \<lparr>line = 1449, client = Typed, api = ''RbacV1.ClusterRoles'',
              namespace = None, verb = Get, target = ''ebs-csi-node-role''\<rparr> FailOnError]\<rparr>,
    \<lparr>label = ''[ebs-csi-e2e] [single-az] [param:nodeTerminationGracePeriod]'',
      title = ''should have custom termination grace period'',
      steps = [Call \<lparr>line = 1477, client = Typed, api = ''CoreV1.Pods'',
              namespace = Some ''kube-system'', verb = List, target = ''app=ebs-csi-node''\<rparr> FailOnError]\<rparr>,
    \<lparr>label = ''[ebs-csi-e2e] [single-az] [param:volumemodifierLeaderElection]'',
      title = ''should have leader election disabled in volumemodifier args'',
      steps = [Call \<lparr>line = 1501, client = Typed, api = ''CoreV1.Pods'',
              namespace = Some ''kube-system'', verb = List, target = ''app=ebs-csi-controller''\<rparr> FailOnError]\<rparr>,
    \<lparr>label = ''[ebs-csi-e2e] [single-az] [param:controllerReplicaCount]'',
      title = ''should have configured replica count'',
      steps = [Call \<lparr>line = 1531, client = Typed, api = ''AppsV1.Deployments'',
              namespace = Some ''kube-system'', verb = Get, target = ''ebs-csi-controller''\<rparr> FailOnError]\<rparr>,
    \<lparr>label = ''[ebs-csi-e2e] [single-az] [param:controllerNodeSelector]'',
      title = ''should have configured node selector'',
      steps = [Call \<lparr>line = 1542, client = Typed, api = ''AppsV1.Deployments'',
              namespace = Some ''kube-system'', verb = Get, target = ''ebs-csi-controller''\<rparr> FailOnError]\<rparr>,
    \<lparr>label = ''[ebs-csi-e2e] [single-az] [param:controllerTolerations]'',
      title = ''should have configured tolerations'',
      steps = [Call \<lparr>line = 1553, client = Typed, api = ''AppsV1.Deployments'',
              namespace = Some ''kube-system'', verb = Get, target = ''ebs-csi-controller''\<rparr> FailOnError]\<rparr>,
    \<lparr>label = ''[ebs-csi-e2e] [single-az] [param:controllerPriorityClassName]'',
      title = ''should have configured priority class'',
      steps = [Call \<lparr>line = 1571, client = Typed, api = ''AppsV1.Deployments'',
              namespace = Some ''kube-system'', verb = Get, target = ''ebs-csi-controller''\<rparr> FailOnError]\<rparr>,
    \<lparr>label = ''[ebs-csi-e2e] [single-az] [param:controllerResources]'',
      title = ''should have configured resources'',
      steps = [Call \<lparr>line = 1582, client = Typed, api = ''AppsV1.Deployments'',
              namespace = Some ''kube-system'', verb = Get, target = ''ebs-csi-controller''\<rparr> FailOnError]\<rparr>,
    \<lparr>label = ''[ebs-csi-e2e] [single-az] [param:controllerPodAnnotations]'',
      title = ''should have configured pod annotations'',
      steps = [Call \<lparr>line = 1600, client = Typed, api = ''AppsV1.Deployments'',
              namespace = Some ''kube-system'', verb = Get, target = ''ebs-csi-controller''\<rparr> FailOnError]\<rparr>,
    \<lparr>label = ''[ebs-csi-e2e] [single-az] [param:controllerPodLabels]'',
      title = ''should have configured pod labels'',
      steps = [Call \<lparr>line = 1611, client = Typed, api = ''AppsV1.Deployments'',
              namespace = Some ''kube-system'', verb = Get, target = ''ebs-csi-controller''\<rparr> FailOnError]\<rparr>,
    \<lparr>label = ''[ebs-csi-e2e] [single-az] [param:controllerDeploymentAnnotations]'',
      title = ''should have configured deployment annotations'',
      steps = [Call \<lparr>line = 1622, client = Typed, api = ''AppsV1.Deployments'',
              namespace = Some ''kube-system'', verb = Get, target = ''ebs-csi-controller''\<rparr> FailOnError]\<rparr>,
    \<lparr>label = ''[ebs-csi-e2e] [single-az] [param:controllerServiceAccountName]'',
      title = ''should use configured service account name'',
      steps = [Call \<lparr>line = 1633, client = Typed, api = ''AppsV1.Deployments'',
              namespace = Some ''kube-system'', verb = Get, target = ''ebs-csi-controller''\<rparr> FailOnError]\<rparr>,
    \<lparr>label = ''[ebs-csi-e2e] [single-az] [param:controllerServiceAccountAnnotations]'',
      title = ''should have configured service account annotations'',
      steps = [Call \<lparr>line = 1644, client = Typed, api = ''CoreV1.ServiceAccounts'',
              namespace = Some ''kube-system'', verb = Get, target = ''ebs-csi-controller-sa''\<rparr> FailOnError]\<rparr>,
    \<lparr>label = ''[ebs-csi-e2e] [single-az] [param:controllerRevisionHistoryLimit]'',
      title = ''should have configured revision history limit'',
      steps = [Call \<lparr>line = 1655, client = Typed, api = ''AppsV1.Deployments'',
              namespace = Some ''kube-system'', verb = Get, target = ''ebs-csi-controller''\<rparr> FailOnError]\<rparr>,
    \<lparr>label = ''[ebs-csi-e2e] [single-az] [param:nodeNodeSelector]'',
      title = ''should have configured node selector'',
      steps = [Call \<lparr>line = 1667, client = Typed, api = ''AppsV1.DaemonSets'',
              namespace = Some ''kube-system'', verb = Get, target = ''ebs-csi-node''\<rparr> FailOnError]\<rparr>,
    \<lparr>label = ''[ebs-csi-e2e] [single-az] [param:nodeTolerations]'',
      title = ''should have configured tolerations'',
      steps = [Call \<lparr>line = 1678, client = Typed, api = ''AppsV1.DaemonSets'',
              namespace = Some ''kube-system'', verb = Get, target = ''ebs-csi-node''\<rparr> FailOnError]\<rparr>,
    \<lparr>label = ''[ebs-csi-e2e] [single-az] [param:nodePriorityClassName]'',
      title = ''should have configured priority class'',
      steps = [Call \<lparr>line = 1696, client = Typed, api = ''AppsV1.DaemonSets'',
              namespace = Some ''kube-system'', verb = Get, target = ''ebs-csi-node''\<rparr> FailOnError]\<rparr>,
    \<lparr>label = ''[ebs-csi-e2e] [single-az] [param:nodeResources]'',
      title = ''should have configured resources'',
      steps = [Call \<lparr>line = 1707, client = Typed, api = ''AppsV1.DaemonSets'',
              namespace = Some ''kube-system'', verb = Get, target = ''ebs-csi-node''\<rparr> FailOnError]\<rparr>,
    \<lparr>label = ''[ebs-csi-e2e] [single-az] [param:nodePodAnnotations]'',
      title = ''should have configured pod annotations'',
      steps = [Call \<lparr>line = 1725, client = Typed, api = ''AppsV1.DaemonSets'',
              namespace = Some ''kube-system'', verb = Get, target = ''ebs-csi-node''\<rparr> FailOnError]\<rparr>,
    \<lparr>label = ''[ebs-csi-e2e] [single-az] [param:nodeDaemonSetAnnotations]'',
      title = ''should have configured daemonset annotations'',
      steps = [Call \<lparr>line = 1736, client = Typed, api = ''AppsV1.DaemonSets'',
              namespace = Some ''kube-system'', verb = Get, target = ''ebs-csi-node''\<rparr> FailOnError]\<rparr>,
    \<lparr>label = ''[ebs-csi-e2e] [single-az] [param:nodeRevisionHistoryLimit]'',
      title = ''should have configured revision history limit'',
      steps = [Call \<lparr>line = 1747, client = Typed, api = ''AppsV1.DaemonSets'',
              namespace = Some ''kube-system'', verb = Get, target = ''ebs-csi-node''\<rparr> FailOnError]\<rparr>,
    \<lparr>label = ''[ebs-csi-e2e] [single-az] [param:nodeServiceAccountName]'',
      title = ''should use configured service account name'',
      steps = [Call \<lparr>line = 1759, client = Typed, api = ''AppsV1.DaemonSets'',
              namespace = Some ''kube-system'', verb = Get, target = ''ebs-csi-node''\<rparr> FailOnError]\<rparr>,
    \<lparr>label = ''[ebs-csi-e2e] [single-az] [param:provisionerResources]'',
      title = ''should have configured resources'',
      steps = [Call \<lparr>line = 1770, client = Typed, api = ''AppsV1.Deployments'',
              namespace = Some ''kube-system'', verb = Get, target = ''ebs-csi-controller''\<rparr> FailOnError]\<rparr>,
    \<lparr>label = ''[ebs-csi-e2e] [single-az] [param:attacherResources]'',
      title = ''should have configured resources'',
      steps = [Call \<lparr>line = 1787, client = Typed, api = ''AppsV1.Deployments'',
              namespace = Some ''kube-system'', verb = Get, target = ''ebs-csi-controller''\<rparr> FailOnError]\<rparr>,
    \<lparr>label = ''[ebs-csi-e2e] [single-az] [param:snapshotterResources]'',
      title = ''should have configured resources'',
      steps = [Call \<lparr>line = 1804, client = Typed, api = ''AppsV1.Deployments'',
              namespace = Some ''kube-system'', verb = Get, target = ''ebs-csi-controller''\<rparr> FailOnError]\<rparr>,
    \<lparr>label = ''[ebs-csi-e2e] [single-az] [param:resizerResources]'',
      title = ''should have configured resources'',
      steps = [Call \<lparr>line = 1821, client = Typed, api = ''AppsV1.Deployments'',
              namespace = Some ''kube-system'', verb = Get, target = ''ebs-csi-controller''\<rparr> FailOnError]\<rparr>,
    \<lparr>label = ''[ebs-csi-e2e] [single-az] [param:nodeDriverRegistrarResources]'',
      title = ''should have configured resources'',
      steps = [Call \<lparr>line = 1838, client = Typed, api = ''AppsV1.DaemonSets'',
              namespace = Some ''kube-system'', verb = Get, target = ''ebs-csi-node''\<rparr> FailOnError]\<rparr>,
    \<lparr>label = ''[ebs-csi-e2e] [single-az] [param:livenessProbeResources]'',
      title = ''should have configured resources'',
      steps = [Call \<lparr>line = 1855, client = Typed, api = ''AppsV1.DaemonSets'',
              namespace = Some ''kube-system'', verb = Get, target = ''ebs-csi-node''\<rparr> FailOnError]\<rparr>,
    \<lparr>label = ''[ebs-csi-e2e] [single-az] [param:imageRepository]'',
      title = ''should use configured image repository'',
      steps = [Call \<lparr>line = 1872, client = Typed, api = ''AppsV1.Deployments'',
              namespace = Some ''kube-system'', verb = Get, target = ''ebs-csi-controller''\<rparr> FailOnError]\<rparr>,
    \<lparr>label = ''[ebs-csi-e2e] [single-az] [param:imagePullPolicy]'',
      title = ''should use configured image pull policy'',
      steps = [Call \<lparr>line = 1889, client = Typed, api = ''AppsV1.Deployments'',
              namespace = Some ''kube-system'', verb = Get, target = ''ebs-csi-controller''\<rparr> FailOnError]\<rparr>,
    \<lparr>label = ''[ebs-csi-e2e] [single-az] [param:customLabels]'',
      title = ''should have custom labels on all resources'',
      steps = [Call \<lparr>line = 1906, client = Typed, api = ''AppsV1.Deployments'',
              namespace = Some ''kube-system'', verb = Get, target = ''ebs-csi-controller''\<rparr> FailOnError,
        Call \<lparr>line = 1910, client = Typed, api = ''AppsV1.DaemonSets'',
              namespace = Some ''kube-system'', verb = Get, target = ''ebs-csi-node''\<rparr> FailOnError]\<rparr>,
    \<lparr>label = ''[ebs-csi-e2e] [single-az] [param:controllerEnv]'',
      title = ''should have configured environment variables'',
      steps = [Call \<lparr>line = 1921, client = Typed, api = ''AppsV1.Deployments'',
              namespace = Some ''kube-system'', verb = Get, target = ''ebs-csi-controller''\<rparr> FailOnError]\<rparr>,
    \<lparr>label = ''[ebs-csi-e2e] [single-az] [param:nodeEnv]'',
      title = ''should have configured environment variables'',
      steps = [Call \<lparr>line = 1945, client = Typed, api = ''AppsV1.DaemonSets'',
              namespace = Some ''kube-system'', verb = Get, target = ''ebs-csi-node''\<rparr> FailOnError]\<rparr>,
    \<lparr>label = ''[ebs-csi-e2e] [single-az] [param:controllerAffinity]'',
      title = ''should have configured affinity'',
      steps = [Call \<lparr>line = 1969, client = Typed, api = ''AppsV1.Deployments'',
              namespace = Some ''kube-system'', verb = Get, target = ''ebs-csi-controller''\<rparr> FailOnError]\<rparr>,
    \<lparr>label = ''[ebs-csi-e2e] [single-az] [param:nodeAffinity]'',
      title = ''should have configured affinity'',
      steps = [Call \<lparr>line = 1981, client = Typed, api = ''AppsV1.DaemonSets'',
              namespace = Some ''kube-system'', verb = Get, target = ''ebs-csi-node''\<rparr> FailOnError]\<rparr>,
    \<lparr>label = ''[ebs-csi-e2e] [single-az] [param:controllerTopologySpreadConstraints]'',
      title = ''should have configured topology spread constraints'',
      steps = [Call \<lparr>line = 1993, client = Typed, api = ''AppsV1.Deployments'',
              namespace = Some ''kube-system'', verb = Get, target = ''ebs-csi-controller''\<rparr> FailOnError]\<rparr>,
    \<lparr>label = ''[ebs-csi-e2e] [single-az] [param:controllerSecurityContext]'',
      title = ''should have configured pod security context'',
      steps = [Call \<lparr>line = 2005, client = Typed, api = ''AppsV1.Deployments'',
              namespace = Some ''kube-system'', verb = Get, target = ''ebs-csi-controller''\<rparr> FailOnError]\<rparr>,
    \<lparr>label = ''[ebs-csi-e2e] [single-az] [param:nodeSecurityContext]'',
      title = ''should have configured pod security context'',
      steps = [Call \<lparr>line = 2017, client = Typed, api = ''AppsV1.DaemonSets'',
              namespace = Some ''kube-system'', verb = Get, target = ''ebs-csi-node''\<rparr> FailOnError]\<rparr>,
    \<lparr>label = ''[ebs-csi-e2e] [single-az] [param:controllerContainerSecurityContext]'',
      title = ''should have configured container security context'',
      steps = [Call \<lparr>line = 2028, client = Typed, api = ''AppsV1.Deployments'',
              namespace = Some ''kube-system'', verb = Get, target = ''ebs-csi-controller''\<rparr> FailOnError]\<rparr>,
    \<lparr>label = ''[ebs-csi-e2e] [single-az] [param:controllerUpdateStrategy]'',
      title = ''should have configured update strategy'',
      steps = [Call \<lparr>line = 2046, client = Typed, api = ''AppsV1.Deployments'',
              namespace = Some ''kube-system'', verb = Get, target = ''ebs-csi-controller''\<rparr> FailOnError]\<rparr>,
    \<lparr>label = ''[ebs-csi-e2e] [single-az] [param:nodeUpdateStrategy]'',
      title = ''should have configured update strategy'',
      steps = [Call \<lparr>line = 2057, client = Typed, api = ''AppsV1.DaemonSets'',
              namespace = Some ''kube-system'', verb = Get, target = ''ebs-csi-node''\<rparr> FailOnError]\<rparr>,
    \<lparr>label = ''[ebs-csi-e2e] [single-az] [param:controllerVolumes]'',
      title = ''should have configured extra volumes'',
      steps = [Call \<lparr>line = 2068, client = Typed, api = ''AppsV1.Deployments'',
              namespace = Some ''kube-system'', verb = Get, target = ''ebs-csi-controller''\<rparr> FailOnError]\<rparr>,
    \<lparr>label = ''[ebs-csi-e2e] [single-az] [param:controllerVolumeMounts]'',
      title = ''should have configured extra volume mounts'',
      steps = [Call \<lparr>line = 2086, client = Typed, api = ''AppsV1.Deployments'',
              namespace = Some ''kube-system'', verb = Get, target = ''ebs-csi-controller''\<rparr> FailOnError]\<rparr>,
    \<lparr>label = ''[ebs-csi-e2e] [single-az] [param:nodeVolumes]'',
      title = ''should have configured extra volumes'',
      steps = [Call \<lparr>line = 2110, client = Typed, api = ''AppsV1.DaemonSets'',
              namespace = Some ''kube-system'', verb = Get, target = ''ebs-csi-node''\<rparr> FailOnError]\<rparr>,
    \<lparr>label = ''[ebs-csi-e2e] [single-az] [param:nodeVolumeMounts]'',
      title = ''should have configured extra volume mounts'',
      steps = [Call \<lparr>line = 2128, client = Typed, api = ''AppsV1.DaemonSets'',
              namespace = Some ''kube-system'', verb = Get, target = ''ebs-csi-node''\<rparr> FailOnError]\<rparr>,
    \<lparr>label = ''[ebs-csi-e2e] [single-az] [param:controllerAdditionalArgs]'',
      title = ''should have configured additional args'',
      steps = [Call \<lparr>line = 2152, client = Typed, api = ''AppsV1.Deployments'',
              namespace = Some ''kube-system'', verb = Get, target = ''ebs-csi-controller''\<rparr> FailOnError]\<rparr>,
    \<lparr>label = ''[ebs-csi-e2e] [single-az] [param:nodeAdditionalArgs]'',
      title = ''should have configured additional args'',
      steps = [Call \<lparr>line = 2176, client = Typed, api = ''AppsV1.DaemonSets'',
              namespace = Some ''kube-system'', verb = Get, target = ''ebs-csi-node''\<rparr> FailOnError]\<rparr>,
    \<lparr>label = ''[ebs-csi-e2e] [single-az] [param:provisionerAdditionalArgs]'',
      title = ''should have configured additional args'',
      steps = [Call \<lparr>line = 2200, client = Typed, api = ''AppsV1.Deployments'',
              namespace = Some ''kube-system'', verb = Get, target = ''ebs-csi-controller''\<rparr> FailOnError]\<rparr>,
    \<lparr>label = ''[ebs-csi-e2e] [single-az] [param:controllerDnsConfig]'',
      title = ''should have configured DNS config'',
      steps = [Call \<lparr>line = 2224, client = Typed, api = ''AppsV1.Deployments'',
              namespace = Some ''kube-system'', verb = Get, target = ''ebs-csi-controller''\<rparr> FailOnError]\<rparr>,
    \<lparr>label = ''[ebs-csi-e2e] [single-az] [param:nodeDnsConfig]'',
      title = ''should have configured DNS config'',
      steps = [Call \<lparr>line = 2236, client = Typed, api = ''AppsV1.DaemonSets'',
              namespace = Some ''kube-system'', verb = Get, target = ''ebs-csi-node''\<rparr> FailOnError]\<rparr>,
    \<lparr>label = ''[ebs-csi-e2e] [single-az] [param:controllerInitContainers]'',
      title = ''should have configured init containers'',
      steps = [Call \<lparr>line = 2248, client = Typed, api = ''AppsV1.Deployments'',
              namespace = Some ''kube-system'', verb = Get, target = ''ebs-csi-controller''\<rparr> FailOnError]\<rparr>,
    \<lparr>label = ''[ebs-csi-e2e] [single-az] [param:nodeInitContainers]'',
      title = ''should have configured init containers'',
      steps = [Call \<lparr>line = 2266, client = Typed, api = ''AppsV1.DaemonSets'',
              namespace = Some ''kube-system'', verb = Get, target = ''ebs-csi-node''\<rparr> FailOnError]\<rparr>,
    \<lparr>label = ''[ebs-csi-e2e] [single-az] [param:imagePullSecrets]'',
      title = ''should have configured image pull secrets'',
      steps = [Call \<lparr>line = 2284, client = Typed, api = ''AppsV1.Deployments'',
              namespace = Some ''kube-system'', verb = Get, target = ''ebs-csi-controller''\<rparr> FailOnError]\<rparr>,
    \<lparr>label = ''[ebs-csi-e2e] [single-az] [param:fullnameOverride]'',
      title = ''should use overridden name'',
      steps = [Call \<lparr>line = 2302, client = Typed, api = ''AppsV1.Deployments'',
              namespace = Some ''kube-system'', verb = Get, target = ''custom-ebs-controller''\<rparr> FailOnError]\<rparr>,
    \<lparr>label = ''[ebs-csi-e2e] [single-az] [param:controllerServiceMonitor]'',
      title = ''should create service monitor'',
      steps = [Call \<lparr>line = 2313, client = Dynamic, api = ''monitoring.coreos.com/v1/servicemonitors'',
              namespace = Some ''kube-system'', verb = Get, target = ''ebs-csi-controller''\<rparr> FailOnError]\<rparr>,
    \<lparr>label = ''[ebs-csi-e2e] [single-az] [param:nodeServiceMonitor]'',
      title = ''should create service monitor'',
      steps = [Call \<lparr>line = 2324, client = Dynamic, api = ''monitoring.coreos.com/v1/servicemonitors'',
              namespace = Some ''kube-system'', verb = Get, target = ''ebs-csi-node''\<rparr> FailOnError]\<rparr>]"

text \<open>A Kubernetes call site that only reads, and that names kube-system when it names a
  namespace at all.\<close>

definition reads_kube_system :: "k8s_call \<Rightarrow> bool" where
  "reads_kube_system k =
     ((verb k = Get \<or> verb k = List) \<and>
      (namespace k = None \<or> namespace k = Some ''kube-system''))"

fun step_reads_kube_system :: "step \<Rightarrow> bool" where
  "step_reads_kube_system (Call k oe) = reads_kube_system k"
| "step_reads_kube_system (RunCmdVolumeTest ln vf) = True"

text \<open>An EC2 request that is DescribeVolumes with tag filters only.\<close>

fun describes_by_tags :: "event \<Rightarrow> bool" where
  "describes_by_tags (EC2 operation filters) =
     (operation = ''DescribeVolumes'' \<and> list_all is_tag_filter filters)"
| "describes_by_tags (K8S k) = False"
| "describes_by_tags (TestsuiteRun ln) = False"

fun step_describes_by_tags :: "step \<Rightarrow> bool" where
  "step_describes_by_tags (Call k oe) = True"
| "step_describes_by_tags (RunCmdVolumeTest ln None) = True"
| "step_describes_by_tags (RunCmdVolumeTest ln (Some validate)) =
     (\<forall>ec2Client. list_all describes_by_tags (fst (validate ec2Client)))"

section \<open>The Makefile target e2e/parameters\<close>

text \<open>The backslash and the single quote cannot stand inside a string literal.\<close>

abbreviation BS :: char where "BS \<equiv> CHR 0x5C"

abbreviation SQ :: char where "SQ \<equiv> CHR 0x27"

text \<open>
  A line of the recipe is either a call of make's \<open>$(error ...)\<close> or a shell command,
  here always one command with the variable assignments that precede it on the line
  (the backslash-newline pairs join the assignments and the command into one line). The
  value of an assignment is written as the shell passes it on, without the double quotes.
\<close>

datatype recipe_line =
    MakeError (message: string)
  | ShellCommand (assignments: "(string \<times> string) list") (command: string)

text \<open>\<open>$(PARAM_SET)\<close> expands to the empty string when the variable is not set, and
  \<open>ifndef\<close> holds for a variable that is not set or set to the empty string.\<close>

definition PARAM_SET_value :: "string option \<Rightarrow> string" where
  "PARAM_SET_value PARAM_SET = (case PARAM_SET of None \<Rightarrow> [] | Some v \<Rightarrow> v)"

definition ifndef :: "string option \<Rightarrow> bool" where
  "ifndef PARAM_SET = (PARAM_SET_value PARAM_SET = [])"

definition recipe_standard :: recipe_line where
  "recipe_standard =
     ShellCommand
       [(''AWS_AVAILABILITY_ZONES'', ''us-west-2a''),
        (''TEST_PATH'', ''./tests/e2e/...''),
        (''GINKGO_FOCUS'', [BS] @ ''[ebs-csi-e2e'' @ [BS] @ ''] '' @ [BS] @ ''[single-az'' @ [BS] @ ''] '' @ [BS] @ ''[param:(extraCreateMetadata|k8sTagClusterId|extraVolumeTags|controllerMetrics|nodeMetrics|batching|defaultFsType|controllerLoggingFormat|nodeLoggingFormat|controllerLogLevel|nodeLogLevel|provisionerLogLevel|attacherLogLevel|snapshotterLogLevel|resizerLogLevel|nodeDriverRegistrarLogLevel|storageClasses|volumeSnapshotClasses|defaultStorageClass|snapshotterForceEnable|controllerUserAgentExtra|controllerEnablePrometheusAnnotations|nodeEnablePrometheusAnnotations|nodeKubeletPath|nodeTolerateAllTaints|controllerPodDisruptionBudget|provisionerLeaderElection|attacherLeaderElection|resizerLeaderElection)'' @ [BS] @ '']''),
        (''GINKGO_PARALLEL'', ''5''),
        (''HELM_EXTRA_FLAGS'', ''--set=controller.extraCreateMetadata=true,controller.k8sTagClusterId=e2e-param-test,controller.extraVolumeTags.TestKey=TestValue,controller.enableMetrics=true,node.enableMetrics=true,controller.batching=true,controller.defaultFsType=xfs,controller.loggingFormat=json,node.loggingFormat=json,controller.logLevel=4,node.logLevel=4,sidecars.provisioner.logLevel=4,sidecars.attacher.logLevel=4,sidecars.snapshotter.logLevel=4,sidecars.resizer.logLevel=4,sidecars.nodeDriverRegistrar.logLevel=4,defaultStorageClass.enabled=true,storageClasses[0].name=test-sc,storageClasses[0].parameters.type=gp3,volumeSnapshotClasses[0].name=test-vsc,volumeSnapshotClasses[0].deletionPolicy=Delete,sidecars.snapshotter.forceEnable=true,controller.userAgentExtra=e2e-test,controller.enablePrometheusAnnotations=true,node.enablePrometheusAnnotations=true,node.kubeletPath=/var/lib/kubelet,node.tolerateAllTaints=true,controller.podDisruptionBudget.enabled=true,sidecars.provisioner.leaderElection.enabled=true,sidecars.attacher.leaderElection.enabled=true,sidecars.resizer.leaderElection.enabled=true'')]
       ''./hack/e2e/run.sh''"

definition recipe_volume_modification :: recipe_line where
  "recipe_volume_modification =
     ShellCommand
       [(''AWS_AVAILABILITY_ZONES'', ''us-west-2a''),
        (''TEST_PATH'', ''./tests/e2e/...''),
        (''GINKGO_FOCUS'', [BS] @ ''[ebs-csi-e2e'' @ [BS] @ ''] '' @ [BS] @ ''[single-az'' @ [BS] @ ''] '' @ [BS] @ ''[param:(volumeModification|volumemodifierLogLevel|volumemodifierLeaderElection)'' @ [BS] @ '']''),
        (''GINKGO_PARALLEL'', ''5''),
        (''HELM_EXTRA_FLAGS'', ''--set=controller.volumeModificationFeature.enabled=true,sidecars.provisioner.additionalArgs[0]='' @ [SQ] @ ''--feature-gates=VolumeAttributesClass=true'' @ [SQ] @ '',sidecars.resizer.additionalArgs[0]='' @ [SQ] @ ''--feature-gates=VolumeAttributesClass=true'' @ [SQ] @ '',sidecars.volumemodifier.logLevel=4,sidecars.volumemodifier.leaderElection.enabled=false'')]
       ''./hack/e2e/run.sh''"

definition recipe_node_config :: recipe_line where
  "recipe_node_config =
     ShellCommand
       [(''AWS_AVAILABILITY_ZONES'', ''us-west-2a''),
        (''TEST_PATH'', ''./tests/e2e/...''),
        (''GINKGO_FOCUS'', [BS] @ ''[ebs-csi-e2e'' @ [BS] @ ''] '' @ [BS] @ ''[single-az'' @ [BS] @ ''] '' @ [BS] @ ''[param:(reservedVolumeAttachments|hostNetwork|nodeDisableMutation|nodeTerminationGracePeriod)'' @ [BS] @ '']''),
        (''GINKGO_PARALLEL'', ''5''),
        (''HELM_EXTRA_FLAGS'', ''--set=node.reservedVolumeAttachments=2,node.hostNetwork=true,node.serviceAccount.disableMutation=true,node.terminationGracePeriodSeconds=60'')]
       ''./hack/e2e/run.sh''"

definition recipe_volume_attach_limit :: recipe_line where
  "recipe_volume_attach_limit =
     ShellCommand
       [(''AWS_AVAILABILITY_ZONES'', ''us-west-2a''),
        (''TEST_PATH'', ''./tests/e2e/...''),
        (''GINKGO_FOCUS'', [BS] @ ''[ebs-csi-e2e'' @ [BS] @ ''] '' @ [BS] @ ''[single-az'' @ [BS] @ ''] '' @ [BS] @ ''[param:volumeAttachLimit'' @ [BS] @ '']''),
        (''GINKGO_PARALLEL'', ''5''),
        (''HELM_EXTRA_FLAGS'', ''--set=node.volumeAttachLimit=25'')]
       ''./hack/e2e/run.sh''"

definition recipe_storage_classes :: recipe_line where
  "recipe_storage_classes =
     ShellCommand
       [(''AWS_AVAILABILITY_ZONES'', ''us-west-2a''),
        (''TEST_PATH'', ''./tests/e2e/...''),
        (''GINKGO_FOCUS'', [BS] @ ''[ebs-csi-e2e'' @ [BS] @ ''] '' @ [BS] @ ''[single-az'' @ [BS] @ ''] '' @ [BS] @ ''[param:(storageClasses|volumeSnapshotClasses|defaultStorageClass)'' @ [BS] @ '']''),
        (''GINKGO_PARALLEL'', ''5''),
        (''HELM_EXTRA_FLAGS'', ''--set=defaultStorageClass.enabled=true,storageClasses[0].name=test-sc,storageClasses[0].parameters.type=gp3,volumeSnapshotClasses[0].name=test-vsc,volumeSnapshotClasses[0].deletionPolicy=Delete'')]
       ''./hack/e2e/run.sh''"

definition recipe_debug :: recipe_line where
  "recipe_debug =
     ShellCommand
       [(''AWS_AVAILABILITY_ZONES'', ''us-west-2a''),
        (''TEST_PATH'', ''./tests/e2e/...''),
        (''GINKGO_FOCUS'', [BS] @ ''[ebs-csi-e2e'' @ [BS] @ ''] '' @ [BS] @ ''[single-az'' @ [BS] @ ''] '' @ [BS] @ ''[param:(debugLogs|sdkDebugLog)'' @ [BS] @ '']''),
        (''GINKGO_PARALLEL'', ''5''),
        (''HELM_EXTRA_FLAGS'', ''--set=debugLogs=true,controller.sdkDebugLog=true'')]
       ''./hack/e2e/run.sh''"

definition recipe_metadata_labeler :: recipe_line where
  "recipe_metadata_labeler =
     ShellCommand
       [(''AWS_AVAILABILITY_ZONES'', ''us-west-2a''),
        (''TEST_PATH'', ''./tests/e2e/...''),
        (''GINKGO_FOCUS'', [BS] @ ''[ebs-csi-e2e'' @ [BS] @ ''] '' @ [BS] @ ''[single-az'' @ [BS] @ ''] '' @ [BS] @ ''[param:(metadataLabeler|metadataLabelerLogLevel)'' @ [BS] @ '']''),
        (''GINKGO_PARALLEL'', ''1''),
        (''EBS_INSTALL_SNAPSHOT'', ''false''),
        (''HELM_EXTRA_FLAGS'', ''--set=sidecars.metadataLabeler.enabled=true,node.metadataSources='' @ [SQ] @ ''metadata-labeler'' @ [SQ] @ '',sidecars.metadataLabeler.logLevel=4'')]
       ''./hack/e2e/run.sh''"

definition recipe_legacy_compat :: recipe_line where
  "recipe_legacy_compat =
     ShellCommand
       [(''AWS_AVAILABILITY_ZONES'', ''us-west-2a''),
        (''TEST_PATH'', ''./tests/e2e/...''),
        (''GINKGO_FOCUS'', [BS] @ ''[ebs-csi-e2e'' @ [BS] @ ''] '' @ [BS] @ ''[single-az'' @ [BS] @ ''] '' @ [BS] @ ''[param:(useOldCSIDriver|legacyXFS)'' @ [BS] @ '']''),
        (''GINKGO_PARALLEL'', ''5''),
        (''HELM_EXTRA_FLAGS'', ''--set=useOldCSIDriver=true,node.legacyXFS=true'')]
       ''./hack/e2e/run.sh''"

definition recipe_selinux :: recipe_line where
  "recipe_selinux =
     ShellCommand
       [(''AWS_AVAILABILITY_ZONES'', ''us-west-2a''),
        (''TEST_PATH'', ''./tests/e2e/...''),
        (''GINKGO_FOCUS'', [BS] @ ''[ebs-csi-e2e'' @ [BS] @ ''] '' @ [BS] @ ''[single-az'' @ [BS] @ ''] '' @ [BS] @ ''[param:selinux'' @ [BS] @ '']''),
        (''GINKGO_PARALLEL'', ''5''),
        (''HELM_EXTRA_FLAGS'', ''--set=node.selinux=true'')]
       ''./hack/e2e/run.sh''"

definition recipe_fips :: recipe_line where
  "recipe_fips =
     ShellCommand
       [(''AWS_AVAILABILITY_ZONES'', ''us-west-2a''),
        (''TEST_PATH'', ''./tests/e2e/...''),
        (''GINKGO_FOCUS'', [BS] @ ''[ebs-csi-e2e'' @ [BS] @ ''] '' @ [BS] @ ''[single-az'' @ [BS] @ ''] '' @ [BS] @ ''[param:fips'' @ [BS] @ '']''),
        (''GINKGO_PARALLEL'', ''5''),
        (''FIPS_TEST'', ''true''),
        (''HELM_EXTRA_FLAGS'', ''--set=fips=true'')]
       ''./hack/e2e/run.sh''"

definition recipe_infra :: recipe_line where
  "recipe_infra =
     ShellCommand
       [(''AWS_AVAILABILITY_ZONES'', ''us-west-2a''),
        (''TEST_PATH'', ''./tests/e2e/...''),
        (''GINKGO_FOCUS'', [BS] @ ''[ebs-csi-e2e'' @ [BS] @ ''] '' @ [BS] @ ''[single-az'' @ [BS] @ ''] '' @ [BS] @ ''[param:(controllerReplicaCount|controllerPriorityClassName|controllerResources|controllerPodAnnotations|controllerPodLabels|controllerDeploymentAnnotations|controllerRevisionHistoryLimit|nodePriorityClassName|nodeResources|nodePodAnnotations|nodeDaemonSetAnnotations|nodeRevisionHistoryLimit|provisionerResources|attacherResources|snapshotterResources|resizerResources|nodeDriverRegistrarResources|livenessProbeResources|customLabels|controllerEnv|nodeEnv|controllerTopologySpreadConstraints|controllerSecurityContext|nodeSecurityContext|controllerContainerSecurityContext|controllerVolumes|controllerVolumeMounts|nodeVolumes|nodeVolumeMounts|controllerDnsConfig|nodeDnsConfig|controllerInitContainers|nodeInitContainers|imagePullPolicy)'' @ [BS] @ '']''),
        (''GINKGO_PARALLEL'', ''5''),
        (''HELM_EXTRA_FLAGS'', ''--set=controller.replicaCount=3,controller.priorityClassName=system-cluster-critical,controller.resources.requests.cpu=100m,controller.resources.limits.memory=256Mi,controller.podAnnotations.test-annotation=test-value,controller.podLabels.test-label=test-value,controller.deploymentAnnotations.deploy-annotation=deploy-value,controller.revisionHistoryLimit=5,node.priorityClassName=system-node-critical,node.resources.requests.cpu=50m,node.resources.limits.memory=128Mi,node.podAnnotations.node-annotation=node-value,node.daemonSetAnnotations.ds-annotation=ds-value,node.revisionHistoryLimit=3,sidecars.provisioner.resources.requests.cpu=20m,sidecars.attacher.resources.requests.cpu=15m,sidecars.snapshotter.resources.requests.cpu=15m,sidecars.resizer.resources.requests.cpu=15m,sidecars.nodeDriverRegistrar.resources.requests.cpu=10m,sidecars.livenessProbe.resources.requests.cpu=5m,customLabels.custom-label=custom-value,controller.env[0].name=TEST_ENV,controller.env[0].value=test-value,node.env[0].name=NODE_ENV,node.env[0].value=node-value,controller.topologySpreadConstraints[0].maxSkew=1,controller.topologySpreadConstraints[0].topologyKey=topology.kubernetes.io/zone,controller.topologySpreadConstraints[0].whenUnsatisfiable=ScheduleAnyway,controller.securityContext.runAsNonRoot=true,controller.containerSecurityContext.readOnlyRootFilesystem=true,controller.volumes[0].name=extra-volume,controller.volumes[0].configMap.name=kube-root-ca.crt,controller.volumeMounts[0].name=extra-volume,controller.volumeMounts[0].mountPath=/extra,node.volumes[0].name=node-extra-volume,node.volumes[0].configMap.name=kube-root-ca.crt,node.volumeMounts[0].name=node-extra-volume,node.volumeMounts[0].mountPath=/node-extra,controller.dnsConfig.nameservers[0]=8.8.8.8,node.dnsConfig.nameservers[0]=8.8.4.4,controller.initContainers[0].name=init-container,controller.initContainers[0].image=busybox,controller.initContainers[0].command[0]=echo,controller.initContainers[0].command[1]=init,node.initContainers[0].name=node-init-container,node.initContainers[0].image=busybox,node.initContainers[0].command[0]=echo,node.initContainers[0].command[1]=node-init,image.pullPolicy=Always'')]
       ''./hack/e2e/run.sh''"

definition recipe_update_strategy :: recipe_line where
  "recipe_update_strategy =
     ShellCommand
       [(''AWS_AVAILABILITY_ZONES'', ''us-west-2a''),
        (''TEST_PATH'', ''./tests/e2e/...''),
        (''GINKGO_FOCUS'', [BS] @ ''[ebs-csi-e2e'' @ [BS] @ ''] '' @ [BS] @ ''[single-az'' @ [BS] @ ''] '' @ [BS] @ ''[param:(controllerUpdateStrategy|nodeUpdateStrategy)'' @ [BS] @ '']''),
        (''GINKGO_PARALLEL'', ''5''),
        (''HELM_EXTRA_FLAGS'', ''--set=controller.updateStrategy.type=Recreate,controller.updateStrategy.rollingUpdate=null,node.updateStrategy.type=OnDelete'')]
       ''./hack/e2e/run.sh''"

text \<open>The recipe that the conditionals leave for a given PARAM_SET.\<close>

definition e2e_parameters_recipe :: "string option \<Rightarrow> recipe_line list" where
  "e2e_parameters_recipe PARAM_SET =
     (if ifndef PARAM_SET
      then [MakeError ''PARAM_SET is required. Options: standard, volume-modification, node-config, storage-classes, debug, metadata-labeler, legacy-compat, selinux, fips'']
      else [])
     @
     (
      if PARAM_SET_value PARAM_SET = ''standard'' then [recipe_standard]
      else if PARAM_SET_value PARAM_SET = ''volume-modification'' then [recipe_volume_modification]
      else if PARAM_SET_value PARAM_SET = ''node-config'' then [recipe_node_config]
      else if PARAM_SET_value PARAM_SET = ''volume-attach-limit'' then [recipe_volume_attach_limit]
      else if PARAM_SET_value PARAM_SET = ''storage-classes'' then [recipe_storage_classes]
      else if PARAM_SET_value PARAM_SET = ''debug'' then [recipe_debug]
      else if PARAM_SET_value PARAM_SET = ''metadata-labeler'' then [recipe_metadata_labeler]
      else if PARAM_SET_value PARAM_SET = ''legacy-compat'' then [recipe_legacy_compat]
      else if PARAM_SET_value PARAM_SET = ''selinux'' then [recipe_selinux]
      else if PARAM_SET_value PARAM_SET = ''fips'' then [recipe_fips]
      else if PARAM_SET_value PARAM_SET = ''infra'' then [recipe_infra]
      else if PARAM_SET_value PARAM_SET = ''update-strategy'' then [recipe_update_strategy]
      else [MakeError (''Unknown PARAM_SET: '' @ PARAM_SET_value PARAM_SET @ ''. Options: standard, volume-modification, node-config, volume-attach-limit, storage-classes, debug, infra, update-strategy, metadata-labeler, legacy-compat, selinux, fips'')])"

text \<open>
  make builds the prerequisites (bin/helm, bin/ginkgo) first, then expands every line of the
  recipe before it runs the first one: an \<open>$(error ...)\<close> stops make with its message
  and nothing of the recipe is run.
\<close>

datatype make_outcome =
    MakeStop string
  | MakeRan "((string \<times> string) list \<times> string) list"

fun expand_recipe :: "recipe_line list \<Rightarrow> string + ((string \<times> string) list \<times> string) list" where
  "expand_recipe [] = Inr []"
| "expand_recipe (MakeError msg # rest) = Inl msg"
| "expand_recipe (ShellCommand env cmd # rest) =
     (case expand_recipe rest of Inl msg \<Rightarrow> Inl msg | Inr cmds \<Rightarrow> Inr ((env, cmd) # cmds))"

definition make_e2e_parameters :: "bool \<Rightarrow> string option \<Rightarrow> make_outcome" where
  "make_e2e_parameters prerequisites_built PARAM_SET =
     (if \<not> prerequisites_built then MakeStop ''No rule to make target, or its recipe failed''
      else case expand_recipe (e2e_parameters_recipe PARAM_SET) of
             Inl msg \<Rightarrow> MakeStop msg
           | Inr cmds \<Rightarrow> MakeRan cmds)"

text \<open>The parameter-set names the conditionals recognise, and the labels each branch names
  in its GINKGO\_FOCUS.\<close>

definition recognized_param_sets :: "string list" where
  "recognized_param_sets =
     [''standard'', ''volume-modification'', ''node-config'', ''volume-attach-limit'', ''storage-classes'', ''debug'', ''metadata-labeler'', ''legacy-compat'', ''selinux'', ''fips'', ''infra'', ''update-strategy'']"

definition param_set_labels :: "string \<Rightarrow> string list" where
  "param_set_labels p =
     (
      if p = ''standard'' then [''extraCreateMetadata'', ''k8sTagClusterId'', ''extraVolumeTags'', ''controllerMetrics'', ''nodeMetrics'', ''batching'', ''defaultFsType'', ''controllerLoggingFormat'', ''nodeLoggingFormat'', ''controllerLogLevel'', ''nodeLogLevel'', ''provisionerLogLevel'', ''attacherLogLevel'', ''snapshotterLogLevel'', ''resizerLogLevel'', ''nodeDriverRegistrarLogLevel'', ''storageClasses'', ''volumeSnapshotClasses'', ''defaultStorageClass'', ''snapshotterForceEnable'', ''controllerUserAgentExtra'', ''controllerEnablePrometheusAnnotations'', ''nodeEnablePrometheusAnnotations'', ''nodeKubeletPath'', ''nodeTolerateAllTaints'', ''controllerPodDisruptionBudget'', ''provisionerLeaderElection'', ''attacherLeaderElection'', ''resizerLeaderElection'']
      else if p = ''volume-modification'' then [''volumeModification'', ''volumemodifierLogLevel'', ''volumemodifierLeaderElection'']
      else if p = ''node-config'' then [''reservedVolumeAttachments'', ''hostNetwork'', ''nodeDisableMutation'', ''nodeTerminationGracePeriod'']
      else if p = ''volume-attach-limit'' then [''volumeAttachLimit'']
      else if p = ''storage-classes'' then [''storageClasses'', ''volumeSnapshotClasses'', ''defaultStorageClass'']
      else if p = ''debug'' then [''debugLogs'', ''sdkDebugLog'']
      else if p = ''metadata-labeler'' then [''metadataLabeler'', ''metadataLabelerLogLevel'']
      else if p = ''legacy-compat'' then [''useOldCSIDriver'', ''legacyXFS'']
      else if p = ''selinux'' then [''selinux'']
      else if p = ''fips'' then [''fips'']
      else if p = ''infra'' then [''controllerReplicaCount'', ''controllerPriorityClassName'', ''controllerResources'', ''controllerPodAnnotations'', ''controllerPodLabels'', ''controllerDeploymentAnnotations'', ''controllerRevisionHistoryLimit'', ''nodePriorityClassName'', ''nodeResources'', ''nodePodAnnotations'', ''nodeDaemonSetAnnotations'', ''nodeRevisionHistoryLimit'', ''provisionerResources'', ''attacherResources'', ''snapshotterResources'', ''resizerResources'', ''nodeDriverRegistrarResources'', ''livenessProbeResources'', ''customLabels'', ''controllerEnv'', ''nodeEnv'', ''controllerTopologySpreadConstraints'', ''controllerSecurityContext'', ''nodeSecurityContext'', ''controllerContainerSecurityContext'', ''controllerVolumes'', ''controllerVolumeMounts'', ''nodeVolumes'', ''nodeVolumeMounts'', ''controllerDnsConfig'', ''nodeDnsConfig'', ''controllerInitContainers'', ''nodeInitContainers'', ''imagePullPolicy'']
      else if p = ''update-strategy'' then [''controllerUpdateStrategy'', ''nodeUpdateStrategy'']
      else [])"

subsection \<open>What a focus expression selects\<close>

text \<open>
  Ginkgo selects a test when the focus expression matches somewhere in the test's full
  text: the text of the enclosing \<open>Describe\<close>, a space, the text of the \<open>It\<close>. The
  expressions of the Makefile use three constructs only: a literal character, an escaped
  punctuation character, and one parenthesised alternation of literal words. Anything else
  is not parsed.
\<close>

datatype rx = Lit char | Alt "string list"

datatype pstate = Outside | Escaped | InGroup "string list" string

definition metachar :: "char \<Rightarrow> bool" where
  "metachar c = (c \<in> set ''[]{}()|*+?^$.'' \<or> c = BS)"

fun parse_rx :: "pstate \<Rightarrow> string \<Rightarrow> rx list option" where
  "parse_rx Outside [] = Some []"
| "parse_rx Escaped [] = None"
| "parse_rx (InGroup alts cur) [] = None"
| "parse_rx Outside (c # cs) =
     (if c = BS then parse_rx Escaped cs
      else if c = CHR ''('' then parse_rx (InGroup [] []) cs
      else if metachar c then None
      else map_option ((#) (Lit c)) (parse_rx Outside cs))"
| "parse_rx Escaped (c # cs) =
     (if metachar c then map_option ((#) (Lit c)) (parse_rx Outside cs) else None)"
| "parse_rx (InGroup alts cur) (c # cs) =
     (if c = CHR '')'' then map_option ((#) (Alt (rev (rev cur # alts)))) (parse_rx Outside cs)
      else if c = CHR ''|'' then parse_rx (InGroup (rev cur # alts) []) cs
      else if metachar c then None
      else parse_rx (InGroup alts (c # cur)) cs)"

text \<open>Does the expression match a prefix of the text?\<close>

fun match_here :: "rx list \<Rightarrow> string \<Rightarrow> bool" where
  "match_here [] text = True"
| "match_here (Lit c # r) [] = False"
| "match_here (Lit c # r) (d # text) = (c = d \<and> match_here r text)"
| "match_here (Alt alts # r) text =
     list_ex (\<lambda>a. take (length a) text = a \<and> match_here r (drop (length a) text)) alts"

text \<open>Does it match somewhere in the text?\<close>

fun search :: "rx list \<Rightarrow> string \<Rightarrow> bool" where
  "search r [] = match_here r []"
| "search r (c # text) = (match_here r (c # text) \<or> search r text)"

definition focus_selects :: "string \<Rightarrow> string \<Rightarrow> bool" where
  "focus_selects focus text =
     (case parse_rx Outside focus of None \<Rightarrow> False | Some r \<Rightarrow> search r text)"

text \<open>The full text of a test of the suite with the label \<open>[param:x]\<close>.\<close>

definition test_text :: "string \<Rightarrow> string \<Rightarrow> string" where
  "test_text x it_text = ''[ebs-csi-e2e] [single-az] [param:'' @ x @ ''] '' @ it_text"

text \<open>The recipe for a parameter set runs the E2E script once, and its focus expression
  selects the tests that carry one of the labels the branch names.\<close>

definition runs_once_focused :: "string \<Rightarrow> bool" where
  "runs_once_focused p =
     (\<exists>env focus.
        make_e2e_parameters True (Some p) = MakeRan [(env, ''./hack/e2e/run.sh'')] \<and>
        map_of env ''GINKGO_FOCUS'' = Some focus \<and>
        (\<forall>x it_text. CHR ''['' \<notin> set x \<and> CHR '']'' \<notin> set x \<and> CHR ''['' \<notin> set it_text \<longrightarrow>
           focus_selects focus (test_text x it_text) = (x \<in> set (param_set_labels p))))"

section \<open>The release script (hack/release-scripts/get-latest-sidecar-images)\<close>

abbreviation DQ :: char where "DQ \<equiv> CHR 0x22"

subsection \<open>The outside world\<close>

text \<open>
  The part of the YAML file the script reads and writes: the mapping under \<open>.sidecars\<close>,
  from sidecar name to its fields (image, tag, manifestDigest), in document order.
\<close>

type_synonym yaml_fields = "(string \<times> string) list"

type_synonym sidecars_doc = "(string \<times> yaml_fields) list"

text \<open>
  What the script meets when it runs: the directory of the script
  (\<open>dirname $(realpath "$0")\<close>, \<open>None\<close> when that fails), the caller's OUTPUT\_FILEPATH,
  the name mktemp gives to the file it creates, what \<open>date\<close> prints, which commands
  \<open>command -v\<close> finds, the template file (\<open>None\<close> when cp cannot copy it), the registry as
  crane shows it (\<open>None\<close> when crane fails), and the order \<open>sort -V\<close> sorts by.
  A tool that fails is taken to exit with status 1.
\<close>

record world =
  script_dir :: "string option"
  env_OUTPUT_FILEPATH :: "string option"
  mktemp_name :: "string option"
  date_now :: string
  has_command :: "string \<Rightarrow> bool"
  template_file :: "sidecars_doc option"
  crane_ls :: "string \<Rightarrow> string list option"
  crane_digest :: "string \<Rightarrow> string option"
  version_le :: "string \<Rightarrow> string \<Rightarrow> bool"

subsection \<open>The tools\<close>

text \<open>yq on the \<open>.sidecars\<close> mapping: \<open>.sidecars | keys | .[]\<close>, \<open>.sidecars.K.F\<close> (which
  prints null for a missing entry) and \<open>.sidecars.K.F = V\<close> in place.\<close>

definition yq_keys :: "sidecars_doc \<Rightarrow> string list" where
  "yq_keys d = map fst d"

definition yq_get :: "sidecars_doc \<Rightarrow> string \<Rightarrow> string \<Rightarrow> string" where
  "yq_get d k f =
     (case map_of d k of
        None \<Rightarrow> ''null''
      | Some flds \<Rightarrow> (case map_of flds f of None \<Rightarrow> ''null'' | Some v \<Rightarrow> v))"

definition yq_set :: "sidecars_doc \<Rightarrow> string \<Rightarrow> string \<Rightarrow> string \<Rightarrow> sidecars_doc" where
  "yq_set d k f v =
     AList.update k
       (AList.update f v (case map_of d k of None \<Rightarrow> [] | Some flds \<Rightarrow> flds)) d"

text \<open>\<open>sed '/latest/d'\<close> drops the lines in which the pattern occurs.\<close>

fun starts_with :: "string \<Rightarrow> string \<Rightarrow> bool" where
  "starts_with [] s = True"
| "starts_with (p # ps) [] = False"
| "starts_with (p # ps) (c # cs) = (p = c \<and> starts_with ps cs)"

fun contains :: "string \<Rightarrow> string \<Rightarrow> bool" where
  "contains p [] = (p = [])"
| "contains p (c # cs) = (starts_with p (c # cs) \<or> contains p cs)"

definition sed_delete :: "string \<Rightarrow> string list \<Rightarrow> string list" where
  "sed_delete p ls = filter (\<lambda>l. \<not> contains p l) ls"

text \<open>\<open>sort -V\<close> as an insertion sort by the version order, and \<open>tail -1\<close> with the
  command substitution around it: the last line, or nothing.\<close>

fun insert_by :: "('a \<Rightarrow> 'a \<Rightarrow> bool) \<Rightarrow> 'a \<Rightarrow> 'a list \<Rightarrow> 'a list" where
  "insert_by le x [] = [x]"
| "insert_by le x (y # ys) = (if le x y then x # y # ys else y # insert_by le x ys)"

definition sort_V :: "(string \<Rightarrow> string \<Rightarrow> bool) \<Rightarrow> string list \<Rightarrow> string list" where
  "sort_V le ls = foldr (insert_by le) ls []"

definition tail_1 :: "string list \<Rightarrow> string" where
  "tail_1 ls = (if ls = [] then [] else last ls)"

text \<open>An unquoted expansion is split into words at blanks, tabs and newlines. (Pathname
  expansion of the words is not modelled.)\<close>

definition is_ifs :: "char \<Rightarrow> bool" where
  "is_ifs c = (c = CHR '' '' \<or> c = CHR 0x09 \<or> c = CHR 0x0A)"

fun ifs_fields :: "string \<Rightarrow> string \<Rightarrow> string list" where
  "ifs_fields cur [] = (if cur = [] then [] else [rev cur])"
| "ifs_fields cur (c # cs) =
     (if is_ifs c then (if cur = [] then ifs_fields [] cs else rev cur # ifs_fields [] cs)
      else ifs_fields (c # cur) cs)"

definition ifs_split :: "string \<Rightarrow> string list" where
  "ifs_split s = ifs_fields [] s"


definition show_digit :: "nat \<Rightarrow> char" where
  "show_digit n = ''0123456789'' ! n"

fun show_nat :: "nat \<Rightarrow> string" where
  "show_nat n = (if n < 10 then [show_digit n] else show_nat (n div 10) @ [show_digit (n mod 10)])"

subsection \<open>The shell\<close>

text \<open>
  The state of the shell: its variables, the two traps, how deep in function calls it is,
  what it has written to standard error, the two files it works on (the output file and
  the temporary file; \<open>None\<close> when the file does not exist), and the external commands it
  has run so far.
\<close>

record shell =
  SCRIPT_PATH :: string
  ROOT_DIRECTORY :: string
  OUTPUT_FILEPATH :: string
  tmp_filename :: string
  image_var :: string
  TAG :: string
  DIGEST :: string
  BASH_COMMAND :: string
  err_trap :: bool
  exit_trap :: bool
  fn_depth :: nat
  stderr :: "string list"
  output_file :: "sidecars_doc option"
  tmp_file :: "string list option"
  ran :: "string list list"

text \<open>A command leaves the shell running, or makes it exit with a status.\<close>

datatype res = Ok | Exit nat

type_synonym sh = "shell \<Rightarrow> res \<times> shell"

definition ext :: "string list \<Rightarrow> shell \<Rightarrow> shell" where
  "ext argv s = s\<lparr>ran := ran s @ [argv]\<rparr>"

text \<open>Line 45: \<open>error_handler\<close>, called with three arguments.\<close>

definition error_handler :: "string \<Rightarrow> string \<Rightarrow> string \<Rightarrow> sh" where
  "error_handler a1 a2 a3 s =
     (Exit 1,
      s\<lparr>stderr := stderr s @
         [''Error occurred in script: '' @ a1 @ '', at line: '' @ a2 @ ''. Command: ''
            @ BASH_COMMAND s @ ''. Error: '' @ a3]\<rparr>)"

text \<open>Line 50: the ERR trap is \<open>error_handler ${LINENO} $? "$BASH_COMMAND"\<close>.\<close>

definition ERR_trap :: "nat \<Rightarrow> nat \<Rightarrow> sh" where
  "ERR_trap LINENO status s =
     error_handler (show_nat LINENO) (show_nat status) (BASH_COMMAND s) s"

text \<open>
  \<open>set -e\<close>: a simple command that returns a status other than 0 ends the shell with that
  status. The ERR trap runs first if it is set where the command failed; the script does
  not set \<open>errtrace\<close> (\<open>set -E\<close>), so inside a shell function the trap is not set.
\<close>

definition errexit :: "nat \<Rightarrow> nat \<Rightarrow> sh" where
  "errexit LINENO status s =
     (if err_trap s \<and> fn_depth s = 0 then ERR_trap LINENO status s else (Exit status, s))"

definition simple :: "nat \<Rightarrow> string \<Rightarrow> (shell \<Rightarrow> nat \<times> shell) \<Rightarrow> sh" where
  "simple LINENO txt body s =
     (case body (s\<lparr>BASH_COMMAND := txt\<rparr>) of
        (status, s') \<Rightarrow> if status = 0 then (Ok, s') else errexit LINENO status s')"

fun run_all :: "sh list \<Rightarrow> sh" where
  "run_all [] s = (Ok, s)"
| "run_all (c # cs) s = (case c s of (Ok, s') \<Rightarrow> run_all cs s' | (Exit n, s') \<Rightarrow> (Exit n, s'))"

fun for_each :: "(string \<Rightarrow> sh) \<Rightarrow> string list \<Rightarrow> sh" where
  "for_each body [] s = (Ok, s)"
| "for_each body (x # xs) s =
     (case body x s of (Ok, s') \<Rightarrow> for_each body xs s' | (Exit n, s') \<Rightarrow> (Exit n, s'))"

text \<open>A call of a shell function: the body runs one level deeper.\<close>

definition call :: "string \<Rightarrow> sh \<Rightarrow> sh" where
  "call txt f s =
     (case f (s\<lparr>BASH_COMMAND := txt, fn_depth := fn_depth s + 1\<rparr>) of
        (Ok, s') \<Rightarrow> (Ok, s'\<lparr>fn_depth := fn_depth s\<rparr>)
      | (Exit n, s') \<Rightarrow> (Exit n, s'))"

subsection \<open>The functions of the script\<close>

text \<open>Line 30.\<close>

definition log :: "world \<Rightarrow> string \<Rightarrow> sh" where
  "log w msg =
     simple 31 (''printf '' @ [DQ] @ ''%s [INFO] - %s'' @ [BS] @ ''n'' @ [DQ] @ '' '' @ [DQ] @ ''$(date +'' @ [DQ] @ ''%Y-%m-%d %H:%M:%S'' @ [DQ] @ '')'' @ [DQ] @ '' '' @ [DQ] @ ''${*}'' @ [DQ] @ '' >&2'')
       (\<lambda>s. (0, (ext [''date'', ''+%Y-%m-%d %H:%M:%S''] s)
                  \<lparr>stderr := stderr s @ [date_now w @ '' [INFO] - '' @ msg]\<rparr>))"

text \<open>Line 34: the loop over the dependencies, with its \<open>exit 1\<close>.\<close>

fun check_each :: "world \<Rightarrow> string list \<Rightarrow> sh" where
  "check_each w [] s = (Ok, s)"
| "check_each w (cmd # rest) s =
     (if \<not> has_command w cmd
      then run_all
             [call (''log '' @ [DQ] @ ''${cmd} could not be found, please install it.'' @ [DQ]) (log w (cmd @ '' could not be found, please install it.'')),
              (\<lambda>s. (Exit 1, s\<lparr>BASH_COMMAND := ''exit 1''\<rparr>))]
             (s\<lparr>BASH_COMMAND := (''command -v '' @ [DQ] @ ''${cmd}'' @ [DQ] @ '' &>/dev/null'')\<rparr>)
      else check_each w rest (s\<lparr>BASH_COMMAND := (''command -v '' @ [DQ] @ ''${cmd}'' @ [DQ] @ '' &>/dev/null'')\<rparr>))"

definition check_dependencies :: "world \<Rightarrow> sh" where
  "check_dependencies w =
     run_all
       [simple 35 (''local readonly dependencies=('' @ [DQ] @ ''yq'' @ [DQ] @ '' '' @ [DQ] @ ''git'' @ [DQ] @ '' '' @ [DQ] @ ''crane'' @ [DQ] @ '')'') (\<lambda>s. (0, s)),
        check_each w [''yq'', ''git'', ''crane'']]"

text \<open>Line 55.\<close>

definition generate_image_digests_file :: "world \<Rightarrow> sh" where
  "generate_image_digests_file w =
     simple 56 (''cp '' @ [DQ] @ ''${SCRIPT_PATH}/image-digests-template.yaml'' @ [DQ] @ '' '' @ [DQ] @ ''${OUTPUT_FILEPATH}'' @ [DQ])
       (\<lambda>s. let s1 = ext [''cp'', SCRIPT_PATH s @ ''/image-digests-template.yaml'', OUTPUT_FILEPATH s] s
            in case template_file w of
                 None \<Rightarrow> (1, s1)
               | Some d \<Rightarrow> (0, s1\<lparr>output_file := Some d\<rparr>))"

text \<open>Line 59. With \<open>pipefail\<close> the pipeline fails when crane fails.\<close>

definition crane_get_latest_image_tag :: "world \<Rightarrow> string \<Rightarrow> sh" where
  "crane_get_latest_image_tag w arg1 =
     run_all
       [simple 60 ''image=$1'' (\<lambda>s. (0, s\<lparr>image_var := arg1\<rparr>)),
        simple 62 ''export TAG'' (\<lambda>s. (0, s)),
        simple 63 (''TAG=$(crane ls '' @ [DQ] @ ''$image'' @ [DQ] @ '' | sed '' @ [SQ] @ ''/latest/d'' @ [SQ] @ '' | sort -V | tail -1)'')
          (\<lambda>s. let s1 = ext [''tail'', ''-1''] (ext [''sort'', ''-V'']
                            (ext [''sed'', ''/latest/d''] (ext [''crane'', ''ls'', image_var s] s)))
               in case crane_ls w (image_var s) of
                    None \<Rightarrow> (1, s1\<lparr>TAG := []\<rparr>)
                  | Some tags \<Rightarrow>
                      (0, s1\<lparr>TAG := tail_1 (sort_V (version_le w) (sed_delete ''latest'' tags))\<rparr>))]"

text \<open>Lines 70 to 79: the body of the loop over the sidecars.\<close>

definition update_sidecar :: "world \<Rightarrow> string \<Rightarrow> sh" where
  "update_sidecar w sidecar =
     run_all
       [(\<lambda>s. call (''log '' @ [DQ] @ ''Updating $sidecar in $OUTPUT_FILEPATH'' @ [DQ])
               (log w (''Updating '' @ sidecar @ '' in '' @ OUTPUT_FILEPATH s)) s),
        simple 71 (''image=$(yq '' @ [DQ] @ ''.sidecars.$sidecar.image'' @ [DQ] @ '' '' @ [DQ] @ ''$OUTPUT_FILEPATH'' @ [DQ] @ '')'')
          (\<lambda>s. let s1 = ext [''yq'', ''.sidecars.'' @ sidecar @ ''.image'', OUTPUT_FILEPATH s] s
               in case output_file s of
                    None \<Rightarrow> (1, s1\<lparr>image_var := []\<rparr>)
                  | Some d \<Rightarrow> (0, s1\<lparr>image_var := yq_get d sidecar ''image''\<rparr>)),
        simple 73 ''export TAG'' (\<lambda>s. (0, s)),
        (\<lambda>s. call (''crane_get_latest_image_tag '' @ [DQ] @ ''$image'' @ [DQ]) (crane_get_latest_image_tag w (image_var s)) s),
        simple 75 (''yq '' @ [DQ] @ ''.sidecars.$sidecar.tag = env(TAG)'' @ [DQ] @ '' -i '' @ [DQ] @ ''$OUTPUT_FILEPATH'' @ [DQ])
          (\<lambda>s. let s1 = ext [''yq'', ''.sidecars.'' @ sidecar @ ''.tag = env(TAG)'', ''-i'',
                              OUTPUT_FILEPATH s] s
               in case output_file s of
                    None \<Rightarrow> (1, s1)
                  | Some d \<Rightarrow> (0, s1\<lparr>output_file := Some (yq_set d sidecar ''tag'' (TAG s))\<rparr>)),
        simple 77 ''export DIGEST'' (\<lambda>s. (0, s)),
        simple 78 (''DIGEST=$(crane digest '' @ [DQ] @ ''$image:$TAG'' @ [DQ] @ '')'')
          (\<lambda>s. let s1 = ext [''crane'', ''digest'', image_var s @ '':'' @ TAG s] s
               in case crane_digest w (image_var s @ '':'' @ TAG s) of
                    None \<Rightarrow> (1, s1\<lparr>DIGEST := []\<rparr>)
                  | Some dg \<Rightarrow> (0, s1\<lparr>DIGEST := dg\<rparr>)),
        simple 79 (''yq '' @ [DQ] @ ''.sidecars.$sidecar.manifestDigest = env(DIGEST)'' @ [DQ] @ '' -i '' @ [DQ] @ ''$OUTPUT_FILEPATH'' @ [DQ])
          (\<lambda>s. let s1 = ext [''yq'', ''.sidecars.'' @ sidecar @ ''.manifestDigest = env(DIGEST)'',
                              ''-i'', OUTPUT_FILEPATH s] s
               in case output_file s of
                    None \<Rightarrow> (1, s1)
                  | Some d \<Rightarrow>
                      (0, s1\<lparr>output_file := Some (yq_set d sidecar ''manifestDigest'' (DIGEST s))\<rparr>))]"

text \<open>What \<open>cat\<close> prints of a file kept as its lines.\<close>

definition cat :: "string list option \<Rightarrow> string" where
  "cat f = (case f of None \<Rightarrow> [] | Some ls \<Rightarrow> concat (map (\<lambda>l. l @ [CHR 0x0A]) ls))"

text \<open>Line 66. The redirection creates or empties the temporary file before yq runs.\<close>

definition update_sidecars_source_of_truth :: "world \<Rightarrow> sh" where
  "update_sidecars_source_of_truth w =
     run_all
       [simple 67 (''yq '' @ [SQ] @ ''.sidecars | keys | .[]'' @ [SQ] @ '' '' @ [DQ] @ ''$OUTPUT_FILEPATH'' @ [DQ] @ '' >'' @ [DQ] @ ''$tmp_filename'' @ [DQ])
          (\<lambda>s. let s1 = ext [''yq'', ''.sidecars | keys | .[]'', OUTPUT_FILEPATH s] s
               in case output_file s of
                    None \<Rightarrow> (1, s1\<lparr>tmp_file := Some []\<rparr>)
                  | Some d \<Rightarrow> (0, s1\<lparr>tmp_file := Some (yq_keys d)\<rparr>)),
        (\<lambda>s. for_each (update_sidecar w)
               (ifs_split (cat (tmp_file s))) (ext [''cat'', tmp_filename s] s))]"

text \<open>Line 83.\<close>

definition main :: "world \<Rightarrow> sh" where
  "main w =
     run_all
       [call ''check_dependencies'' (check_dependencies w),
        call ''generate_image_digests_file'' (generate_image_digests_file w),
        call ''update_sidecars_source_of_truth'' (update_sidecars_source_of_truth w)]"

subsection \<open>The script\<close>

text \<open>
  \<open>rm\<close> with the words it is given: it removes the temporary file if one of the words
  is its name, and it succeeds if it could remove every word (no other word names a file).
\<close>

definition rm :: "string list \<Rightarrow> shell \<Rightarrow> nat \<times> shell" where
  "rm args s =
     (let s1 = ext (''rm'' # args) s;
          s2 = (if tmp_filename s \<in> set args then s1\<lparr>tmp_file := None\<rparr> else s1)
      in if args \<noteq> [] \<and> (\<forall>a \<in> set args. a = tmp_filename s) \<and> tmp_file s \<noteq> None
         then (0, s2) else (1, s2))"

text \<open>
  Line 53: the EXIT trap is \<open>rm $tmp_filename\<close>, with the name unquoted. The trap runs
  when the shell exits, for whatever reason; the shell's status stays what it was unless
  the trap's command fails. Inside the trap \<open>LINENO\<close> is 1 and \<open>BASH_COMMAND\<close> is the last
  command from before the trap.
\<close>

definition EXIT_trap :: "nat \<Rightarrow> shell \<Rightarrow> nat \<times> shell" where
  "EXIT_trap status s =
     (if \<not> exit_trap s then (status, s)
      else case rm (ifs_split (tmp_filename s)) s of
             (st, s1) \<Rightarrow>
               if st = 0 then (status, s1)
               else (case errexit 1 st s1 of (Exit n, s2) \<Rightarrow> (n, s2) | (Ok, s2) \<Rightarrow> (st, s2)))"

text \<open>The shell before the first line: nothing set, no trap, no files of its own.\<close>

definition initial :: shell where
  "initial =
     \<lparr>SCRIPT_PATH = [], ROOT_DIRECTORY = [], OUTPUT_FILEPATH = [], tmp_filename = [],
      image_var = [], TAG = [], DIGEST = [], BASH_COMMAND = [],
      err_trap = False, exit_trap = False, fn_depth = 0, stderr = [],
      output_file = None, tmp_file = None, ran = []\<rparr>"

text \<open>Lines 19 to 53, top to bottom: the variables, the temporary file, the two traps.\<close>

definition preamble :: "world \<Rightarrow> sh" where
  "preamble w =
     run_all
       [simple 22 ''export SCRIPT_PATH ROOT_DIRECTORY IMAGE_DIGESTS_TEMPLATE_FILEPATH OUTPUT_FILEPATH'' (\<lambda>s. (0, s)),
        simple 23 (''SCRIPT_PATH=$(dirname $(realpath '' @ [DQ] @ ''$0'' @ [DQ] @ ''))'')
          (\<lambda>s. let s1 = ext [''dirname''] (ext [''realpath''] s)
               in case script_dir w of
                    None \<Rightarrow> (1, s1)
                  | Some dir \<Rightarrow> (0, s1\<lparr>SCRIPT_PATH := dir\<rparr>)),
        simple 24 (''ROOT_DIRECTORY='' @ [DQ] @ ''$SCRIPT_PATH/../..'' @ [DQ]) (\<lambda>s. (0, s\<lparr>ROOT_DIRECTORY := SCRIPT_PATH s @ ''/../..''\<rparr>)),
        simple 25 (''OUTPUT_FILEPATH=${OUTPUT_FILEPATH:='' @ [DQ] @ ''$ROOT_DIRECTORY/hack/release-scripts/image-digests.yaml'' @ [DQ] @ ''}'')
          (\<lambda>s. (0, s\<lparr>OUTPUT_FILEPATH :=
                    (case env_OUTPUT_FILEPATH w of
                       None \<Rightarrow> ROOT_DIRECTORY s @ ''/hack/release-scripts/image-digests.yaml''
                     | Some v \<Rightarrow>
                         if v = [] then ROOT_DIRECTORY s @ ''/hack/release-scripts/image-digests.yaml''
                         else v)\<rparr>)),
        simple 27 ''tmp_filename=$(mktemp)''
          (\<lambda>s. let s1 = ext [''mktemp''] s
               in case mktemp_name w of
                    None \<Rightarrow> (1, s1)
                  | Some n \<Rightarrow> (0, s1\<lparr>tmp_filename := n, tmp_file := Some []\<rparr>)),
        simple 50 (''trap '' @ [SQ] @ ''error_handler ${LINENO} $? '' @ [DQ] @ ''$BASH_COMMAND'' @ [DQ] @ [SQ] @ '' ERR'') (\<lambda>s. (0, s\<lparr>err_trap := True\<rparr>)),
        simple 53 (''trap '' @ [SQ] @ ''rm $tmp_filename'' @ [SQ] @ '' EXIT'') (\<lambda>s. (0, s\<lparr>exit_trap := True\<rparr>))]"

text \<open>The whole script: the preamble, then line 89.\<close>

definition script :: "world \<Rightarrow> sh" where
  "script w = run_all [preamble w, call ''main'' (main w)]"

definition run_script :: "world \<Rightarrow> nat \<times> shell" where
  "run_script w =
     (case script w initial of
        (Ok, s) \<Rightarrow> EXIT_trap 0 s
      | (Exit n, s) \<Rightarrow> EXIT_trap n s)"

subsection \<open>Properties of commands\<close>



text \<open>The external commands that occur in the script, and the property of a command to
  run none but these.\<close>

definition script_tools :: "string list" where
  "script_tools =
     [''realpath'', ''dirname'', ''mktemp'', ''date'', ''cp'', ''yq'', ''cat'', ''crane'',
      ''sed'', ''sort'', ''tail'', ''rm'']"

definition tools_only :: "string list list \<Rightarrow> string list list \<Rightarrow> bool" where
  "tools_only before after = (\<forall>a \<in> set after. a \<in> set before \<or> hd a \<in> set script_tools)"


text \<open>The tag the pipeline of line 63 leaves in TAG, given crane's list.\<close>

definition latest_image_tag :: "world \<Rightarrow> string list \<Rightarrow> string" where
  "latest_image_tag w tags = tail_1 (sort_V (version_le w) (sed_delete ''latest'' tags))"

text \<open>
  A run in which everything is in place (the tools, the template with one sidecar) but the
  registry cannot be reached, so that \<open>crane ls\<close> fails.
\<close>

definition registry_down :: world where
  "registry_down =
     \<lparr>script_dir = Some ''/repo/hack/release-scripts'',
      env_OUTPUT_FILEPATH = None,
      mktemp_name = Some ''/tmp/tmp.Xa1b2C3d4E'',
      date_now = ''2026-01-01 00:00:00'',
      has_command = (\<lambda>c. True),
      template_file = Some [(''attacher'', [(''image'', ''public.ecr.aws/csi-components/csi-attacher'')])],
      crane_ls = (\<lambda>i. None),
      crane_digest = (\<lambda>r. None),
      version_le = (\<lambda>a b. length a \<le> length b)\<rparr>"





section \<open>Running a test of the suite\<close>

text \<open>
  What the cluster and AWS do in a run: whether a Kubernetes call returns an error,
  whether the assertions that follow the call of a given line hold (they only inspect the
  object the call returned), whether the pod that the volume test deploys succeeds, and
  what EC2 answers.
\<close>

record cluster =
  call_fails :: "k8s_call \<Rightarrow> bool"
  asserts_hold :: "nat \<Rightarrow> bool"
  pod_succeeds :: "nat \<Rightarrow> bool"
  ec2_answers :: ec2_client










section \<open>Theorems: the generated mock\<close>

lemmas mock_method_defs = AdmissionregistrationV1_def AdmissionregistrationV1alpha1_def AdmissionregistrationV1beta1_def AppsV1_def AppsV1beta1_def AppsV1beta2_def AuthenticationV1_def AuthenticationV1alpha1_def AuthenticationV1beta1_def AuthorizationV1_def AuthorizationV1beta1_def AutoscalingV1_def AutoscalingV2_def AutoscalingV2beta1_def AutoscalingV2beta2_def BatchV1_def BatchV1beta1_def CertificatesV1_def CertificatesV1alpha1_def CertificatesV1beta1_def CoordinationV1_def CoordinationV1alpha1_def CoordinationV1beta1_def CoreV1_def Discovery_def DiscoveryV1_def DiscoveryV1beta1_def EventsV1_def EventsV1beta1_def ExtensionsV1beta1_def FlowcontrolV1_def FlowcontrolV1beta1_def FlowcontrolV1beta2_def FlowcontrolV1beta3_def InternalV1alpha1_def NetworkingV1_def NetworkingV1alpha1_def NetworkingV1beta1_def NodeV1_def NodeV1alpha1_def NodeV1beta1_def PolicyV1_def PolicyV1beta1_def RbacV1_def RbacV1alpha1_def RbacV1beta1_def ResourceV1alpha3_def SchedulingV1_def SchedulingV1alpha1_def SchedulingV1beta1_def StorageV1_def StorageV1alpha1_def StorageV1beta1_def StoragemigrationV1alpha1_def

lemma mock_base_method_value:
  "ctrl name = Returns (r0 # rest) \<Longrightarrow>
   mock_base_method impl ctrl name T = Inr (if has_type impl r0 T then r0 else GoNil)"
  by (cases r0) (simp_all add: mock_base_method_def has_type_def)

lemma delegates_without_panicI:
  "(\<And>impl ctrl. f impl ctrl = mock_base_method impl ctrl name T) \<Longrightarrow>
   delegates_without_panic (f, name, T)"
  unfolding delegates_without_panic_def
proof (clarify)
  fix impl ctrl r0 rest
  assume eq: "\<And>impl ctrl. f impl ctrl = mock_base_method impl ctrl name T"
    and c: "ctrl name = Returns (r0 # rest)"
  show "f impl ctrl = Inr (if has_type impl r0 T then r0 else GoNil)"
    unfolding eq using c by (rule mock_base_method_value)
qed

lemma all_methods_delegate: "list_all delegates_without_panic MockKubernetesClient_methods"
  unfolding MockKubernetesClient_methods_def list.pred_inject
  by (intro conjI list.pred_inject(1) delegates_without_panicI mock_method_defs)

text \<open>
  C9: every generated base method of MockKubernetesClient hands the call to the gomock
  controller under its own method name and, given the slice with the recorded return value,
  returns that value when it has the method's declared interface type and the nil interface
  otherwise; it does not panic on a value of the wrong type.
\<close>

theorem mock_methods_total:
  "\<forall>(f, name, T) \<in> set MockKubernetesClient_methods.
     \<forall>impl ctrl r0 rest. ctrl name = Returns (r0 # rest) \<longrightarrow>
       f impl ctrl = Inr (if has_type impl r0 T then r0 else GoNil)"
  using all_methods_delegate
  by (simp add: list_all_iff delegates_without_panic_def)

theorem mock_methods_total_witness:
  "(CoreV1, ''CoreV1'', ''v17.CoreV1Interface'') \<in> set MockKubernetesClient_methods
   \<and> (\<lambda>n. Returns [GoDyn ''*fake.Pods'' 1]) ''CoreV1'' = Returns (GoDyn ''*fake.Pods'' 1 # [])
   \<and> CoreV1 (\<lambda>d T. False) (\<lambda>n. Returns [GoDyn ''*fake.Pods'' 1]) = Inr GoNil"
proof -
  have m: "(CoreV1, ''CoreV1'', ''v17.CoreV1Interface'') \<in> set MockKubernetesClient_methods"
    by (simp add: MockKubernetesClient_methods_def)
  have c: "(\<lambda>n::string. Returns [GoDyn ''*fake.Pods'' 1]) ''CoreV1'' = Returns (GoDyn ''*fake.Pods'' 1 # [])"
    by simp
  from mock_methods_total m
  have "\<forall>impl ctrl r0 rest. ctrl ''CoreV1'' = Returns (r0 # rest) \<longrightarrow>
       CoreV1 impl ctrl = Inr (if has_type impl r0 ''v17.CoreV1Interface'' then r0 else GoNil)"
    by fast
  from this[rule_format, OF c, of "\<lambda>d T. False"]
  show ?thesis using m by (simp add: has_type_def)
qed

section \<open>Theorems: the debugLogs test and the AWS tag tests\<close>

lemma hasDebugLevel_iff:
  "hasDebugLevel args = (''-v=7'' \<in> set args \<or> ''--v=7'' \<in> set args)"
  by (induction args) auto

lemma debugLogs_containers_Passed:
  "(debugLogs_containers cs = Passed) =
     (\<forall>c \<in> set cs. Name c = ''ebs-plugin'' \<longrightarrow> hasDebugLevel (Args c))"
  by (induction cs) auto

lemma debugLogs_pods_Passed:
  "(debugLogs_pods pods = Passed) =
     (\<forall>pod \<in> set pods. debugLogs_containers (Containers (Spec pod)) = Passed)"
  by (induction pods) (auto split: verdict.splits)

lemma debugLogs_containers_filter:
  "debugLogs_containers cs = debugLogs_containers (filter (\<lambda>c. Name c = ''ebs-plugin'') cs)"
  by (induction cs) auto

lemma debugLogs_pods_plugin_only:
  "ebs_plugin_containers pods = ebs_plugin_containers pods' \<Longrightarrow>
   debugLogs_pods pods = debugLogs_pods pods'"
proof (induction pods arbitrary: pods')
  case Nil
  then show ?case by (simp add: ebs_plugin_containers_def)
next
  case (Cons p ps)
  then obtain q qs where q: "pods' = q # qs"
    by (cases pods') (auto simp: ebs_plugin_containers_def)
  with Cons.prems have h: "filter (\<lambda>c. Name c = ''ebs-plugin'') (Containers (Spec p))
        = filter (\<lambda>c. Name c = ''ebs-plugin'') (Containers (Spec q))"
    and t: "ebs_plugin_containers ps = ebs_plugin_containers qs"
    by (simp_all add: ebs_plugin_containers_def)
  have "debugLogs_containers (Containers (Spec p))
      = debugLogs_containers (filter (\<lambda>c. Name c = ''ebs-plugin'') (Containers (Spec p)))"
    by (rule debugLogs_containers_filter)
  also have "\<dots> = debugLogs_containers (filter (\<lambda>c. Name c = ''ebs-plugin'') (Containers (Spec q)))"
    by (simp only: h)
  also have "\<dots> = debugLogs_containers (Containers (Spec q))"
    by (rule debugLogs_containers_filter [symmetric])
  finally have c: "debugLogs_containers (Containers (Spec p))
      = debugLogs_containers (Containers (Spec q))" .
  have r: "debugLogs_pods ps = debugLogs_pods qs" by (rule Cons.IH [OF t])
  show ?case unfolding q by (simp only: debugLogs_pods.simps c r)
qed

text \<open>
  C8: the [param:debugLogs] test lists the pods labelled app=ebs-csi-controller in
  kube-system and passes exactly when the list call succeeds, pods exist, and every
  container named ebs-plugin in them has \<open>-v=7\<close> or \<open>--v=7\<close> among its args. Two
  clusters whose controller pods have the same ebs-plugin containers get the same verdict,
  whatever their other containers are.
\<close>

theorem debugLogs_only_ebs_plugin:
  "(debugLogs_test cs = Passed) =
     (\<exists>pods. cs ''kube-system'' ''app=ebs-csi-controller'' = Inr pods \<and> pods \<noteq> [] \<and>
        (\<forall>pod \<in> set pods. \<forall>c \<in> set (Containers (Spec pod)).
           Name c = ''ebs-plugin'' \<longrightarrow> ''-v=7'' \<in> set (Args c) \<or> ''--v=7'' \<in> set (Args c)))
   \<and> (\<forall>pods pods'.
         cs ''kube-system'' ''app=ebs-csi-controller'' = Inr pods \<and>
         cs' ''kube-system'' ''app=ebs-csi-controller'' = Inr pods' \<and>
         ebs_plugin_containers pods = ebs_plugin_containers pods'
         \<longrightarrow> debugLogs_test cs = debugLogs_test cs')"
proof (intro conjI allI impI)
  show "(debugLogs_test cs = Passed) =
     (\<exists>pods. cs ''kube-system'' ''app=ebs-csi-controller'' = Inr pods \<and> pods \<noteq> [] \<and>
        (\<forall>pod \<in> set pods. \<forall>c \<in> set (Containers (Spec pod)).
           Name c = ''ebs-plugin'' \<longrightarrow> ''-v=7'' \<in> set (Args c) \<or> ''--v=7'' \<in> set (Args c)))"
    by (cases "cs ''kube-system'' ''app=ebs-csi-controller''")
       (simp_all add: debugLogs_test_def debugLogs_pods_Passed debugLogs_containers_Passed
          hasDebugLevel_iff)
next
  fix pods pods'
  assume a: "cs ''kube-system'' ''app=ebs-csi-controller'' = Inr pods \<and>
         cs' ''kube-system'' ''app=ebs-csi-controller'' = Inr pods' \<and>
         ebs_plugin_containers pods = ebs_plugin_containers pods'"
  then have "length (ebs_plugin_containers pods) = length (ebs_plugin_containers pods')"
    by simp
  then have "length pods = length pods'"
    by (simp add: ebs_plugin_containers_def)
  then have len: "(pods = []) = (pods' = [])"
    by (cases pods; cases pods'; simp)
  from a have "debugLogs_pods pods = debugLogs_pods pods'"
    by (intro debugLogs_pods_plugin_only) simp
  with a len show "debugLogs_test cs = debugLogs_test cs'"
    by (simp add: debugLogs_test_def)
qed

theorem debugLogs_only_ebs_plugin_witness:
  "debugLogs_test (\<lambda>ns sel. Inr [\<lparr>Spec = \<lparr>Containers =
        [\<lparr>Name = ''ebs-plugin'', Args = [''--endpoint=$(CSI_ENDPOINT)'', ''--v=7'']\<rparr>,
         \<lparr>Name = ''csi-provisioner'', Args = [''--v=2'']\<rparr>]\<rparr>\<rparr>]) = Passed
   \<and> debugLogs_test (\<lambda>ns sel. Inr [\<lparr>Spec = \<lparr>Containers =
        [\<lparr>Name = ''ebs-plugin'', Args = [''--endpoint=$(CSI_ENDPOINT)'', ''--v=7'']\<rparr>,
         \<lparr>Name = ''csi-provisioner'', Args = [''--v=2'']\<rparr>]\<rparr>\<rparr>])
     = debugLogs_test (\<lambda>ns sel. Inr [\<lparr>Spec = \<lparr>Containers =
        [\<lparr>Name = ''ebs-plugin'', Args = [''--endpoint=$(CSI_ENDPOINT)'', ''--v=7'']\<rparr>,
         \<lparr>Name = ''csi-attacher'', Args = [''--v=7'', ''--leader-election'']\<rparr>]\<rparr>\<rparr>])"
proof -
  let ?p = "\<lparr>Name = ''ebs-plugin'', Args = [''--endpoint=$(CSI_ENDPOINT)'', ''--v=7'']\<rparr>"
  let ?a = "[\<lparr>Spec = \<lparr>Containers = [?p, \<lparr>Name = ''csi-provisioner'', Args = [''--v=2'']\<rparr>]\<rparr>\<rparr>]"
  let ?b = "[\<lparr>Spec = \<lparr>Containers = [?p, \<lparr>Name = ''csi-attacher'', Args = [''--v=7'', ''--leader-election'']\<rparr>]\<rparr>\<rparr>]"
  have e: "ebs_plugin_containers ?a = ebs_plugin_containers ?b"
    by (simp add: ebs_plugin_containers_def)
  have 1: "debugLogs_test (\<lambda>ns sel. Inr ?a) = Passed"
    using debugLogs_only_ebs_plugin [of "\<lambda>ns sel. Inr ?a" "\<lambda>ns sel. Inr ?b"] by simp
  have 2: "debugLogs_test (\<lambda>ns sel. Inr ?a) = debugLogs_test (\<lambda>ns sel. Inr ?b)"
    using debugLogs_only_ebs_plugin [of "\<lambda>ns sel. Inr ?a" "\<lambda>ns sel. Inr ?b"] e by blast
  from 1 2 show ?thesis by simp
qed

lemma describes_by_one_tagI:
  assumes "is_tag_filter flt"
    and "\<And>ec2Client. validate ec2Client =
      (case ec2Client [flt] of
         Inl err \<Rightarrow> ([EC2 ''DescribeVolumes'' [flt]], Failed m1)
       | Inr volumes \<Rightarrow> ([EC2 ''DescribeVolumes'' [flt]],
            if length volumes \<ge> 1 then Passed else Failed m2))"
  shows "describes_by_one_tag validate"
  unfolding describes_by_one_tag_def
proof (intro exI [of _ flt] conjI allI)
  show "is_tag_filter flt" by fact
next
  fix ec2Client
  show "fst (validate ec2Client) = [EC2 ''DescribeVolumes'' [flt]]"
    by (cases "ec2Client [flt]") (simp_all add: assms(2))
  show "(snd (validate ec2Client) = Passed) =
          (\<exists>volumes. ec2Client [flt] = Inr volumes \<and> length volumes \<ge> 1)"
    by (cases "ec2Client [flt]") (simp_all add: assms(2))
qed

text \<open>
  C1: each of the three validation functions (extraCreateMetadata, k8sTagClusterId,
  extraVolumeTags) sends exactly one request, DescribeVolumes with exactly one filter whose
  name is a tag name, and passes if and only if that request succeeds and returns at least
  one volume.
\<close>

theorem tag_validation_one_describe:
  "describes_by_one_tag (validate_extraCreateMetadata ns_Name)
   \<and> describes_by_one_tag validate_k8sTagClusterId
   \<and> describes_by_one_tag validate_extraVolumeTags"
proof (intro conjI)
  show "describes_by_one_tag (validate_extraCreateMetadata ns_Name)"
    by (rule describes_by_one_tagI
          [where flt = "\<lparr>FilterName = ''tag:kubernetes.io/created-for/pvc/namespace'',
                          FilterValues = [ns_Name]\<rparr>"])
       (simp_all only: is_tag_filter_def validate_extraCreateMetadata_def Let_def, simp)
  show "describes_by_one_tag validate_k8sTagClusterId"
    by (rule describes_by_one_tagI
          [where flt = "\<lparr>FilterName = ''tag:kubernetes.io/cluster/e2e-param-test'',
                          FilterValues = [''owned'']\<rparr>"])
       (simp_all only: is_tag_filter_def validate_k8sTagClusterId_def Let_def, simp)
  show "describes_by_one_tag validate_extraVolumeTags"
    by (rule describes_by_one_tagI
          [where flt = "\<lparr>FilterName = ''tag:TestKey'', FilterValues = [''TestValue'']\<rparr>"])
       (simp_all only: is_tag_filter_def validate_extraVolumeTags_def Let_def, simp)
qed

theorem tag_validation_one_describe_witness:
  "snd (validate_extraVolumeTags (\<lambda>filters. Inr [Volume ''vol-0a1b'']))  = Passed
   \<and> snd (validate_extraVolumeTags (\<lambda>filters. Inr [])) \<noteq> Passed
   \<and> snd (validate_k8sTagClusterId (\<lambda>filters. Inl (ApiError ''RequestExpired''))) \<noteq> Passed"
proof -
  have v: "describes_by_one_tag validate_extraVolumeTags"
    and k: "describes_by_one_tag validate_k8sTagClusterId"
    using tag_validation_one_describe [of "''ebs-1''"] by simp_all
  from v obtain f where
    f: "\<And>c. (snd (validate_extraVolumeTags c) = Passed) =
             (\<exists>volumes. c [f] = Inr volumes \<and> length volumes \<ge> 1)"
    unfolding describes_by_one_tag_def by blast
  from k obtain g where
    g: "\<And>c. (snd (validate_k8sTagClusterId c) = Passed) =
             (\<exists>volumes. c [g] = Inr volumes \<and> length volumes \<ge> 1)"
    unfolding describes_by_one_tag_def by blast
  show ?thesis
    by (simp add: f g)
qed

section \<open>Theorems: the call sites of the suite\<close>

lemma suite_reads_kube_system:
  "list_all (\<lambda>t. list_all step_reads_kube_system (steps t)) (parameters_suite ns_Name)"
  unfolding parameters_suite_def
  by (simp add: reads_kube_system_def)

text \<open>
  C2: every Kubernetes call that a test body of the file issues itself is a Get or a List
  (never Create, Update, Patch or Delete), and every one that names a namespace names
  kube-system.
\<close>

theorem suite_calls_read_only:
  "\<forall>t \<in> set (parameters_suite ns_Name). \<forall>k oe. Call k oe \<in> set (steps t) \<longrightarrow>
     (verb k = Get \<or> verb k = List) \<and>
     (namespace k = None \<or> namespace k = Some ''kube-system'')"
proof (intro ballI allI impI)
  fix t k oe
  assume t: "t \<in> set (parameters_suite ns_Name)" and c: "Call k oe \<in> set (steps t)"
  from suite_reads_kube_system t have "list_all step_reads_kube_system (steps t)"
    by (simp add: list_all_iff)
  with c have "step_reads_kube_system (Call k oe)"
    unfolding list_all_iff by blast
  then show "(verb k = Get \<or> verb k = List) \<and>
     (namespace k = None \<or> namespace k = Some ''kube-system'')"
    by (simp add: reads_kube_system_def)
qed

theorem suite_calls_read_only_witness:
  "\<lparr>label = ''[ebs-csi-e2e] [single-az] [param:batching]'',
     title = ''should have batching enabled in controller args'',
     steps = [Call \<lparr>line = 298, client = Typed, api = ''CoreV1.Pods'',
                namespace = Some ''kube-system'', verb = List,
                target = ''app=ebs-csi-controller''\<rparr> FailOnError]\<rparr>
     \<in> set (parameters_suite ''ebs-1'')
   \<and> verb \<lparr>line = 298, client = Typed, api = ''CoreV1.Pods'',
                namespace = Some ''kube-system'', verb = List,
                target = ''app=ebs-csi-controller''\<rparr> = List
   \<and> namespace \<lparr>line = 298, client = Typed, api = ''CoreV1.Pods'',
                namespace = Some ''kube-system'', verb = List,
                target = ''app=ebs-csi-controller''\<rparr> = Some ''kube-system''"
proof -
  let ?k = "\<lparr>line = 298, client = Typed, api = ''CoreV1.Pods'',
                namespace = Some ''kube-system'', verb = List,
                target = ''app=ebs-csi-controller''\<rparr>"
  let ?t = "\<lparr>label = ''[ebs-csi-e2e] [single-az] [param:batching]'',
     title = ''should have batching enabled in controller args'',
     steps = [Call ?k FailOnError]\<rparr>"
  have m: "?t \<in> set (parameters_suite ''ebs-1'')"
    by (simp add: parameters_suite_def)
  have c: "Call ?k FailOnError \<in> set (steps ?t)"
    by simp
  from suite_calls_read_only [of "''ebs-1''"] m c
  have "(verb ?k = Get \<or> verb ?k = List) \<and>
     (namespace ?k = None \<or> namespace ?k = Some ''kube-system'')"
    by blast
  with m show ?thesis by simp
qed

lemma validate_describes_by_tags:
  assumes "describes_by_one_tag validate"
  shows "list_all describes_by_tags (fst (validate ec2Client))"
proof -
  from assms obtain flt where f: "is_tag_filter flt"
    and tr: "\<And>c. fst (validate c) = [EC2 ''DescribeVolumes'' [flt]]"
    unfolding describes_by_one_tag_def by blast
  show ?thesis by (simp add: tr f)
qed

lemma three_validations:
  "describes_by_one_tag (validate_extraCreateMetadata ns_Name)"
  "describes_by_one_tag validate_k8sTagClusterId"
  "describes_by_one_tag validate_extraVolumeTags"
proof -
  show "describes_by_one_tag (validate_extraCreateMetadata ns_Name)"
    by (rule describes_by_one_tagI
          [where flt = "\<lparr>FilterName = ''tag:kubernetes.io/created-for/pvc/namespace'',
                          FilterValues = [ns_Name]\<rparr>"])
       (simp_all only: is_tag_filter_def validate_extraCreateMetadata_def Let_def, simp)
  show "describes_by_one_tag validate_k8sTagClusterId"
    by (rule describes_by_one_tagI
          [where flt = "\<lparr>FilterName = ''tag:kubernetes.io/cluster/e2e-param-test'',
                          FilterValues = [''owned'']\<rparr>"])
       (simp_all only: is_tag_filter_def validate_k8sTagClusterId_def Let_def, simp)
  show "describes_by_one_tag validate_extraVolumeTags"
    by (rule describes_by_one_tagI
          [where flt = "\<lparr>FilterName = ''tag:TestKey'', FilterValues = [''TestValue'']\<rparr>"])
       (simp_all only: is_tag_filter_def validate_extraVolumeTags_def Let_def, simp)
qed

lemma suite_describes_by_tags:
  "list_all (\<lambda>t. list_all step_describes_by_tags (steps t)) (parameters_suite ns_Name)"
  unfolding parameters_suite_def
  by (simp add: validate_describes_by_tags three_validations)

text \<open>
  C3: EC2 is reached from the supplied files only through the \<open>ValidateFunc\<close> closures
  of the suite (every other step of every test is a Kubernetes call), and every request such
  a closure sends, whatever EC2 answers, is DescribeVolumes with tag filters only.
\<close>

theorem suite_ec2_only_describe_by_tag:
  "\<forall>t \<in> set (parameters_suite ns_Name). \<forall>ln validate.
     RunCmdVolumeTest ln (Some validate) \<in> set (steps t) \<longrightarrow>
       (\<forall>ec2Client. \<forall>e \<in> set (fst (validate ec2Client)).
          \<exists>filters. e = EC2 ''DescribeVolumes'' filters \<and>
            (\<forall>f \<in> set filters. take 4 (FilterName f) = ''tag:''))"
proof (intro ballI allI impI)
  fix t ln validate ec2Client e
  assume t: "t \<in> set (parameters_suite ns_Name)"
    and c: "RunCmdVolumeTest ln (Some validate) \<in> set (steps t)"
    and e: "e \<in> set (fst (validate ec2Client))"
  from suite_describes_by_tags t have "list_all step_describes_by_tags (steps t)"
    by (simp add: list_all_iff)
  with c have "step_describes_by_tags (RunCmdVolumeTest ln (Some validate))"
    unfolding list_all_iff by blast
  then have "list_all describes_by_tags (fst (validate ec2Client))"
    by simp
  with e have d: "describes_by_tags e"
    by (simp add: list_all_iff)
  then show "\<exists>filters. e = EC2 ''DescribeVolumes'' filters \<and>
            (\<forall>f \<in> set filters. take 4 (FilterName f) = ''tag:'')"
    by (cases e) (simp_all add: list_all_iff is_tag_filter_def)
qed

theorem suite_ec2_only_describe_by_tag_witness:
  "\<lparr>label = ''[ebs-csi-e2e] [single-az] [param:extraVolumeTags]'',
     title = ''should add extra volume tags from Helm values'',
     steps = [RunCmdVolumeTest 215 (Some validate_extraVolumeTags)]\<rparr>
     \<in> set (parameters_suite ''ebs-1'')
   \<and> EC2 ''DescribeVolumes'' [\<lparr>FilterName = ''tag:TestKey'', FilterValues = [''TestValue'']\<rparr>]
       \<in> set (fst (validate_extraVolumeTags (\<lambda>filters. Inr [])))
   \<and> (\<exists>filters. EC2 ''DescribeVolumes''
           [\<lparr>FilterName = ''tag:TestKey'', FilterValues = [''TestValue'']\<rparr>]
         = EC2 ''DescribeVolumes'' filters \<and>
         (\<forall>f \<in> set filters. take 4 (FilterName f) = ''tag:''))"
proof -
  let ?e = "EC2 ''DescribeVolumes'' [\<lparr>FilterName = ''tag:TestKey'', FilterValues = [''TestValue'']\<rparr>]"
  let ?t = "\<lparr>label = ''[ebs-csi-e2e] [single-az] [param:extraVolumeTags]'',
     title = ''should add extra volume tags from Helm values'',
     steps = [RunCmdVolumeTest 215 (Some validate_extraVolumeTags)]\<rparr>"
  have m: "?t \<in> set (parameters_suite ''ebs-1'')"
    by (simp add: parameters_suite_def)
  have c: "RunCmdVolumeTest 215 (Some validate_extraVolumeTags) \<in> set (steps ?t)"
    by simp
  have e: "?e \<in> set (fst (validate_extraVolumeTags (\<lambda>filters. Inr [])))"
    by (simp add: validate_extraVolumeTags_def)
  from suite_ec2_only_describe_by_tag [of "''ebs-1''"] m c e
  have "\<exists>filters. ?e = EC2 ''DescribeVolumes'' filters \<and>
         (\<forall>f \<in> set filters. take 4 (FilterName f) = ''tag:'')"
    by blast
  with m e show ?thesis by blast
qed

section \<open>Theorems: the Makefile target e2e/parameters\<close>

lemma match_lits:
  "match_here (map Lit s @ r) tx =
     (take (length s) tx = s \<and> match_here r (drop (length s) tx))"
proof (induction s arbitrary: tx)
  case Nil
  then show ?case by simp
next
  case (Cons c s)
  then show ?case by (cases tx) auto
qed

lemma match_close_bracket:
  assumes "CHR '']'' \<notin> set x" and "CHR '']'' \<notin> set n"
  shows "(take (length n) (x @ CHR '']'' # rest) = n \<and>
          match_here [Lit CHR '']''] (drop (length n) (x @ CHR '']'' # rest))) = (n = x)"
proof (cases "length n = length x")
  case True
  then show ?thesis by auto
next
  case False
  then consider "length n < length x" | "length x < length n" by linarith
  then show ?thesis
  proof cases
    case 1
    then have d: "drop (length n) (x @ CHR '']'' # rest) = (x ! length n) # drop (Suc (length n)) x @ CHR '']'' # rest"
      by (simp add: Cons_nth_drop_Suc)
    from 1 have "x ! length n \<in> set x" by simp
    with assms(1) have "x ! length n \<noteq> CHR '']''" by metis
    with d 1 show ?thesis by auto
  next
    case 2
    have "take (length n) (x @ CHR '']'' # rest) \<noteq> n"
    proof
      assume e: "take (length n) (x @ CHR '']'' # rest) = n"
      from 2 have "take (length n) (x @ CHR '']'' # rest) ! length x = CHR '']''"
        by (simp add: nth_append)
      with e have "n ! length x = CHR '']''" by simp
      with 2 have "CHR '']'' \<in> set n" by (metis nth_mem)
      with assms(2) show False by simp
    qed
    with 2 show ?thesis by auto
  qed
qed

lemma match_alt_close:
  assumes "CHR '']'' \<notin> set x" and "\<forall>n \<in> set names. CHR '']'' \<notin> set n"
  shows "match_here [Alt names, Lit CHR '']''] (x @ CHR '']'' # rest) = (x \<in> set names)"
proof -
  have "match_here [Alt names, Lit CHR '']''] (x @ CHR '']'' # rest)
      = (\<exists>n \<in> set names. take (length n) (x @ CHR '']'' # rest) = n \<and>
          match_here [Lit CHR '']''] (drop (length n) (x @ CHR '']'' # rest)))"
    by (simp only: match_here.simps list_ex_iff)
  also have "\<dots> = (\<exists>n \<in> set names. n = x)"
    using assms match_close_bracket by (intro bex_cong refl) blast
  finally show ?thesis by auto
qed

lemma no_open_bracket:
  "CHR ''['' \<notin> set tx \<Longrightarrow> search (Lit CHR ''['' # r) tx = False"
  by (induction tx) auto

lemma focus_search:
  assumes "CHR ''['' \<notin> set x" and "CHR '']'' \<notin> set x" and "CHR ''['' \<notin> set it_text"
    and "\<forall>n \<in> set names. CHR '']'' \<notin> set n"
  shows "search (map Lit ''[ebs-csi-e2e] [single-az] [param:'' @ [Alt names, Lit CHR '']''])
           (test_text x it_text) = (x \<in> set names)"
proof -
  have m: "match_here [Alt names, Lit CHR '']''] (x @ CHR '']'' # CHR '' '' # it_text) = (x \<in> set names)"
    using assms(2,4) by (rule match_alt_close)
  have s: "\<And>r. search (Lit CHR ''['' # r) (x @ CHR '']'' # CHR '' '' # it_text) = False"
    using assms(1,3) by (intro no_open_bracket) simp
  show ?thesis
    unfolding test_text_def
    by (simp del: match_here.simps(4) add: m s)
qed

lemma focus_search_single:
  assumes "CHR ''['' \<notin> set x" and "CHR '']'' \<notin> set x" and "CHR ''['' \<notin> set it_text"
    and "CHR '']'' \<notin> set n"
  shows "search (map Lit ''[ebs-csi-e2e] [single-az] [param:'' @ map Lit n @ [Lit CHR '']''])
           (test_text x it_text) = (x \<in> set [n])"
proof -
  have a: "\<And>t. match_here (map Lit n @ [Lit CHR '']'']) t = match_here [Alt [n], Lit CHR '']''] t"
    by (simp add: match_lits)
  have m: "match_here (map Lit n @ [Lit CHR '']'']) (x @ CHR '']'' # CHR '' '' # it_text) = (x \<in> set [n])"
    unfolding a using assms(2,4) by (intro match_alt_close) simp_all
  have s: "\<And>r. search (Lit CHR ''['' # r) (x @ CHR '']'' # CHR '' '' # it_text) = False"
    using assms(1,3) by (intro no_open_bracket) simp
  show ?thesis
    unfolding test_text_def
    by (simp del: match_here.simps(4) add: m s)
qed

lemmas make_defs = make_e2e_parameters_def e2e_parameters_recipe_def ifndef_def
  PARAM_SET_value_def

lemma runs_standard: "runs_once_focused ''standard''"
  unfolding runs_once_focused_def
proof (intro exI [of _ "assignments recipe_standard"]
    exI [of _ "the (map_of (assignments recipe_standard) ''GINKGO_FOCUS'')"] conjI allI impI)
  show "make_e2e_parameters True (Some ''standard'')
      = MakeRan [(assignments recipe_standard, ''./hack/e2e/run.sh'')]"
    by (simp add: make_defs recipe_standard_def)
  show "map_of (assignments recipe_standard) ''GINKGO_FOCUS''
      = Some (the (map_of (assignments recipe_standard) ''GINKGO_FOCUS''))"
    by (simp add: recipe_standard_def)
  fix x it_text
  assume h: "CHR ''['' \<notin> set x \<and> CHR '']'' \<notin> set x \<and> CHR ''['' \<notin> set it_text"
  have p: "parse_rx Outside (the (map_of (assignments recipe_standard) ''GINKGO_FOCUS''))
      = Some (map Lit ''[ebs-csi-e2e] [single-az] [param:'' @ [Alt [''extraCreateMetadata'', ''k8sTagClusterId'', ''extraVolumeTags'', ''controllerMetrics'', ''nodeMetrics'', ''batching'', ''defaultFsType'', ''controllerLoggingFormat'', ''nodeLoggingFormat'', ''controllerLogLevel'', ''nodeLogLevel'', ''provisionerLogLevel'', ''attacherLogLevel'', ''snapshotterLogLevel'', ''resizerLogLevel'', ''nodeDriverRegistrarLogLevel'', ''storageClasses'', ''volumeSnapshotClasses'', ''defaultStorageClass'', ''snapshotterForceEnable'', ''controllerUserAgentExtra'', ''controllerEnablePrometheusAnnotations'', ''nodeEnablePrometheusAnnotations'', ''nodeKubeletPath'', ''nodeTolerateAllTaints'', ''controllerPodDisruptionBudget'', ''provisionerLeaderElection'', ''attacherLeaderElection'', ''resizerLeaderElection''], Lit CHR '']''])"
    by (simp add: recipe_standard_def metachar_def)
  have l: "param_set_labels ''standard'' = [''extraCreateMetadata'', ''k8sTagClusterId'', ''extraVolumeTags'', ''controllerMetrics'', ''nodeMetrics'', ''batching'', ''defaultFsType'', ''controllerLoggingFormat'', ''nodeLoggingFormat'', ''controllerLogLevel'', ''nodeLogLevel'', ''provisionerLogLevel'', ''attacherLogLevel'', ''snapshotterLogLevel'', ''resizerLogLevel'', ''nodeDriverRegistrarLogLevel'', ''storageClasses'', ''volumeSnapshotClasses'', ''defaultStorageClass'', ''snapshotterForceEnable'', ''controllerUserAgentExtra'', ''controllerEnablePrometheusAnnotations'', ''nodeEnablePrometheusAnnotations'', ''nodeKubeletPath'', ''nodeTolerateAllTaints'', ''controllerPodDisruptionBudget'', ''provisionerLeaderElection'', ''attacherLeaderElection'', ''resizerLeaderElection'']"
    by (simp add: param_set_labels_def)
  show "focus_selects (the (map_of (assignments recipe_standard) ''GINKGO_FOCUS'')) (test_text x it_text)
      = (x \<in> set (param_set_labels ''standard''))"
    unfolding focus_selects_def p l option.case
    using h by (intro focus_search [where names = "[''extraCreateMetadata'', ''k8sTagClusterId'', ''extraVolumeTags'', ''controllerMetrics'', ''nodeMetrics'', ''batching'', ''defaultFsType'', ''controllerLoggingFormat'', ''nodeLoggingFormat'', ''controllerLogLevel'', ''nodeLogLevel'', ''provisionerLogLevel'', ''attacherLogLevel'', ''snapshotterLogLevel'', ''resizerLogLevel'', ''nodeDriverRegistrarLogLevel'', ''storageClasses'', ''volumeSnapshotClasses'', ''defaultStorageClass'', ''snapshotterForceEnable'', ''controllerUserAgentExtra'', ''controllerEnablePrometheusAnnotations'', ''nodeEnablePrometheusAnnotations'', ''nodeKubeletPath'', ''nodeTolerateAllTaints'', ''controllerPodDisruptionBudget'', ''provisionerLeaderElection'', ''attacherLeaderElection'', ''resizerLeaderElection'']"]) simp_all
qed

lemma runs_volume_modification: "runs_once_focused ''volume-modification''"
  unfolding runs_once_focused_def
proof (intro exI [of _ "assignments recipe_volume_modification"]
    exI [of _ "the (map_of (assignments recipe_volume_modification) ''GINKGO_FOCUS'')"] conjI allI impI)
  show "make_e2e_parameters True (Some ''volume-modification'')
      = MakeRan [(assignments recipe_volume_modification, ''./hack/e2e/run.sh'')]"
    by (simp add: make_defs recipe_volume_modification_def)
  show "map_of (assignments recipe_volume_modification) ''GINKGO_FOCUS''
      = Some (the (map_of (assignments recipe_volume_modification) ''GINKGO_FOCUS''))"
    by (simp add: recipe_volume_modification_def)
  fix x it_text
  assume h: "CHR ''['' \<notin> set x \<and> CHR '']'' \<notin> set x \<and> CHR ''['' \<notin> set it_text"
  have p: "parse_rx Outside (the (map_of (assignments recipe_volume_modification) ''GINKGO_FOCUS''))
      = Some (map Lit ''[ebs-csi-e2e] [single-az] [param:'' @ [Alt [''volumeModification'', ''volumemodifierLogLevel'', ''volumemodifierLeaderElection''], Lit CHR '']''])"
    by (simp add: recipe_volume_modification_def metachar_def)
  have l: "param_set_labels ''volume-modification'' = [''volumeModification'', ''volumemodifierLogLevel'', ''volumemodifierLeaderElection'']"
    by (simp add: param_set_labels_def)
  show "focus_selects (the (map_of (assignments recipe_volume_modification) ''GINKGO_FOCUS'')) (test_text x it_text)
      = (x \<in> set (param_set_labels ''volume-modification''))"
    unfolding focus_selects_def p l option.case
    using h by (intro focus_search [where names = "[''volumeModification'', ''volumemodifierLogLevel'', ''volumemodifierLeaderElection'']"]) simp_all
qed

lemma runs_node_config: "runs_once_focused ''node-config''"
  unfolding runs_once_focused_def
proof (intro exI [of _ "assignments recipe_node_config"]
    exI [of _ "the (map_of (assignments recipe_node_config) ''GINKGO_FOCUS'')"] conjI allI impI)
  show "make_e2e_parameters True (Some ''node-config'')
      = MakeRan [(assignments recipe_node_config, ''./hack/e2e/run.sh'')]"
    by (simp add: make_defs recipe_node_config_def)
  show "map_of (assignments recipe_node_config) ''GINKGO_FOCUS''
      = Some (the (map_of (assignments recipe_node_config) ''GINKGO_FOCUS''))"
    by (simp add: recipe_node_config_def)
  fix x it_text
  assume h: "CHR ''['' \<notin> set x \<and> CHR '']'' \<notin> set x \<and> CHR ''['' \<notin> set it_text"
  have p: "parse_rx Outside (the (map_of (assignments recipe_node_config) ''GINKGO_FOCUS''))
      = Some (map Lit ''[ebs-csi-e2e] [single-az] [param:'' @ [Alt [''reservedVolumeAttachments'', ''hostNetwork'', ''nodeDisableMutation'', ''nodeTerminationGracePeriod''], Lit CHR '']''])"
    by (simp add: recipe_node_config_def metachar_def)
  have l: "param_set_labels ''node-config'' = [''reservedVolumeAttachments'', ''hostNetwork'', ''nodeDisableMutation'', ''nodeTerminationGracePeriod'']"
    by (simp add: param_set_labels_def)
  show "focus_selects (the (map_of (assignments recipe_node_config) ''GINKGO_FOCUS'')) (test_text x it_text)
      = (x \<in> set (param_set_labels ''node-config''))"
    unfolding focus_selects_def p l option.case
    using h by (intro focus_search [where names = "[''reservedVolumeAttachments'', ''hostNetwork'', ''nodeDisableMutation'', ''nodeTerminationGracePeriod'']"]) simp_all
qed

lemma runs_volume_attach_limit: "runs_once_focused ''volume-attach-limit''"
  unfolding runs_once_focused_def
proof (intro exI [of _ "assignments recipe_volume_attach_limit"]
    exI [of _ "the (map_of (assignments recipe_volume_attach_limit) ''GINKGO_FOCUS'')"] conjI allI impI)
  show "make_e2e_parameters True (Some ''volume-attach-limit'')
      = MakeRan [(assignments recipe_volume_attach_limit, ''./hack/e2e/run.sh'')]"
    by (simp add: make_defs recipe_volume_attach_limit_def)
  show "map_of (assignments recipe_volume_attach_limit) ''GINKGO_FOCUS''
      = Some (the (map_of (assignments recipe_volume_attach_limit) ''GINKGO_FOCUS''))"
    by (simp add: recipe_volume_attach_limit_def)
  fix x it_text
  assume h: "CHR ''['' \<notin> set x \<and> CHR '']'' \<notin> set x \<and> CHR ''['' \<notin> set it_text"
  have p: "parse_rx Outside (the (map_of (assignments recipe_volume_attach_limit) ''GINKGO_FOCUS''))
      = Some (map Lit ''[ebs-csi-e2e] [single-az] [param:'' @ map Lit ''volumeAttachLimit'' @ [Lit CHR '']''])"
    by (simp add: recipe_volume_attach_limit_def metachar_def)
  have l: "param_set_labels ''volume-attach-limit'' = [''volumeAttachLimit'']"
    by (simp add: param_set_labels_def)
  show "focus_selects (the (map_of (assignments recipe_volume_attach_limit) ''GINKGO_FOCUS'')) (test_text x it_text)
      = (x \<in> set (param_set_labels ''volume-attach-limit''))"
    unfolding focus_selects_def p l option.case
    using h by (intro focus_search_single [where n = "''volumeAttachLimit''"]) simp_all
qed

lemma runs_storage_classes: "runs_once_focused ''storage-classes''"
  unfolding runs_once_focused_def
proof (intro exI [of _ "assignments recipe_storage_classes"]
    exI [of _ "the (map_of (assignments recipe_storage_classes) ''GINKGO_FOCUS'')"] conjI allI impI)
  show "make_e2e_parameters True (Some ''storage-classes'')
      = MakeRan [(assignments recipe_storage_classes, ''./hack/e2e/run.sh'')]"
    by (simp add: make_defs recipe_storage_classes_def)
  show "map_of (assignments recipe_storage_classes) ''GINKGO_FOCUS''
      = Some (the (map_of (assignments recipe_storage_classes) ''GINKGO_FOCUS''))"
    by (simp add: recipe_storage_classes_def)
  fix x it_text
  assume h: "CHR ''['' \<notin> set x \<and> CHR '']'' \<notin> set x \<and> CHR ''['' \<notin> set it_text"
  have p: "parse_rx Outside (the (map_of (assignments recipe_storage_classes) ''GINKGO_FOCUS''))
      = Some (map Lit ''[ebs-csi-e2e] [single-az] [param:'' @ [Alt [''storageClasses'', ''volumeSnapshotClasses'', ''defaultStorageClass''], Lit CHR '']''])"
    by (simp add: recipe_storage_classes_def metachar_def)
  have l: "param_set_labels ''storage-classes'' = [''storageClasses'', ''volumeSnapshotClasses'', ''defaultStorageClass'']"
    by (simp add: param_set_labels_def)
  show "focus_selects (the (map_of (assignments recipe_storage_classes) ''GINKGO_FOCUS'')) (test_text x it_text)
      = (x \<in> set (param_set_labels ''storage-classes''))"
    unfolding focus_selects_def p l option.case
    using h by (intro focus_search [where names = "[''storageClasses'', ''volumeSnapshotClasses'', ''defaultStorageClass'']"]) simp_all
qed

lemma runs_debug: "runs_once_focused ''debug''"
  unfolding runs_once_focused_def
proof (intro exI [of _ "assignments recipe_debug"]
    exI [of _ "the (map_of (assignments recipe_debug) ''GINKGO_FOCUS'')"] conjI allI impI)
  show "make_e2e_parameters True (Some ''debug'')
      = MakeRan [(assignments recipe_debug, ''./hack/e2e/run.sh'')]"
    by (simp add: make_defs recipe_debug_def)
  show "map_of (assignments recipe_debug) ''GINKGO_FOCUS''
      = Some (the (map_of (assignments recipe_debug) ''GINKGO_FOCUS''))"
    by (simp add: recipe_debug_def)
  fix x it_text
  assume h: "CHR ''['' \<notin> set x \<and> CHR '']'' \<notin> set x \<and> CHR ''['' \<notin> set it_text"
  have p: "parse_rx Outside (the (map_of (assignments recipe_debug) ''GINKGO_FOCUS''))
      = Some (map Lit ''[ebs-csi-e2e] [single-az] [param:'' @ [Alt [''debugLogs'', ''sdkDebugLog''], Lit CHR '']''])"
    by (simp add: recipe_debug_def metachar_def)
  have l: "param_set_labels ''debug'' = [''debugLogs'', ''sdkDebugLog'']"
    by (simp add: param_set_labels_def)
  show "focus_selects (the (map_of (assignments recipe_debug) ''GINKGO_FOCUS'')) (test_text x it_text)
      = (x \<in> set (param_set_labels ''debug''))"
    unfolding focus_selects_def p l option.case
    using h by (intro focus_search [where names = "[''debugLogs'', ''sdkDebugLog'']"]) simp_all
qed

lemma runs_metadata_labeler: "runs_once_focused ''metadata-labeler''"
  unfolding runs_once_focused_def
proof (intro exI [of _ "assignments recipe_metadata_labeler"]
    exI [of _ "the (map_of (assignments recipe_metadata_labeler) ''GINKGO_FOCUS'')"] conjI allI impI)
  show "make_e2e_parameters True (Some ''metadata-labeler'')
      = MakeRan [(assignments recipe_metadata_labeler, ''./hack/e2e/run.sh'')]"
    by (simp add: make_defs recipe_metadata_labeler_def)
  show "map_of (assignments recipe_metadata_labeler) ''GINKGO_FOCUS''
      = Some (the (map_of (assignments recipe_metadata_labeler) ''GINKGO_FOCUS''))"
    by (simp add: recipe_metadata_labeler_def)
  fix x it_text
  assume h: "CHR ''['' \<notin> set x \<and> CHR '']'' \<notin> set x \<and> CHR ''['' \<notin> set it_text"
  have p: "parse_rx Outside (the (map_of (assignments recipe_metadata_labeler) ''GINKGO_FOCUS''))
      = Some (map Lit ''[ebs-csi-e2e] [single-az] [param:'' @ [Alt [''metadataLabeler'', ''metadataLabelerLogLevel''], Lit CHR '']''])"
    by (simp add: recipe_metadata_labeler_def metachar_def)
  have l: "param_set_labels ''metadata-labeler'' = [''metadataLabeler'', ''metadataLabelerLogLevel'']"
    by (simp add: param_set_labels_def)
  show "focus_selects (the (map_of (assignments recipe_metadata_labeler) ''GINKGO_FOCUS'')) (test_text x it_text)
      = (x \<in> set (param_set_labels ''metadata-labeler''))"
    unfolding focus_selects_def p l option.case
    using h by (intro focus_search [where names = "[''metadataLabeler'', ''metadataLabelerLogLevel'']"]) simp_all
qed

lemma runs_legacy_compat: "runs_once_focused ''legacy-compat''"
  unfolding runs_once_focused_def
proof (intro exI [of _ "assignments recipe_legacy_compat"]
    exI [of _ "the (map_of (assignments recipe_legacy_compat) ''GINKGO_FOCUS'')"] conjI allI impI)
  show "make_e2e_parameters True (Some ''legacy-compat'')
      = MakeRan [(assignments recipe_legacy_compat, ''./hack/e2e/run.sh'')]"
    by (simp add: make_defs recipe_legacy_compat_def)
  show "map_of (assignments recipe_legacy_compat) ''GINKGO_FOCUS''
      = Some (the (map_of (assignments recipe_legacy_compat) ''GINKGO_FOCUS''))"
    by (simp add: recipe_legacy_compat_def)
  fix x it_text
  assume h: "CHR ''['' \<notin> set x \<and> CHR '']'' \<notin> set x \<and> CHR ''['' \<notin> set it_text"
  have p: "parse_rx Outside (the (map_of (assignments recipe_legacy_compat) ''GINKGO_FOCUS''))
      = Some (map Lit ''[ebs-csi-e2e] [single-az] [param:'' @ [Alt [''useOldCSIDriver'', ''legacyXFS''], Lit CHR '']''])"
    by (simp add: recipe_legacy_compat_def metachar_def)
  have l: "param_set_labels ''legacy-compat'' = [''useOldCSIDriver'', ''legacyXFS'']"
    by (simp add: param_set_labels_def)
  show "focus_selects (the (map_of (assignments recipe_legacy_compat) ''GINKGO_FOCUS'')) (test_text x it_text)
      = (x \<in> set (param_set_labels ''legacy-compat''))"
    unfolding focus_selects_def p l option.case
    using h by (intro focus_search [where names = "[''useOldCSIDriver'', ''legacyXFS'']"]) simp_all
qed

lemma runs_selinux: "runs_once_focused ''selinux''"
  unfolding runs_once_focused_def
proof (intro exI [of _ "assignments recipe_selinux"]
    exI [of _ "the (map_of (assignments recipe_selinux) ''GINKGO_FOCUS'')"] conjI allI impI)
  show "make_e2e_parameters True (Some ''selinux'')
      = MakeRan [(assignments recipe_selinux, ''./hack/e2e/run.sh'')]"
    by (simp add: make_defs recipe_selinux_def)
  show "map_of (assignments recipe_selinux) ''GINKGO_FOCUS''
      = Some (the (map_of (assignments recipe_selinux) ''GINKGO_FOCUS''))"
    by (simp add: recipe_selinux_def)
  fix x it_text
  assume h: "CHR ''['' \<notin> set x \<and> CHR '']'' \<notin> set x \<and> CHR ''['' \<notin> set it_text"
  have p: "parse_rx Outside (the (map_of (assignments recipe_selinux) ''GINKGO_FOCUS''))
      = Some (map Lit ''[ebs-csi-e2e] [single-az] [param:'' @ map Lit ''selinux'' @ [Lit CHR '']''])"
    by (simp add: recipe_selinux_def metachar_def)
  have l: "param_set_labels ''selinux'' = [''selinux'']"
    by (simp add: param_set_labels_def)
  show "focus_selects (the (map_of (assignments recipe_selinux) ''GINKGO_FOCUS'')) (test_text x it_text)
      = (x \<in> set (param_set_labels ''selinux''))"
    unfolding focus_selects_def p l option.case
    using h by (intro focus_search_single [where n = "''selinux''"]) simp_all
qed

lemma runs_fips: "runs_once_focused ''fips''"
  unfolding runs_once_focused_def
proof (intro exI [of _ "assignments recipe_fips"]
    exI [of _ "the (map_of (assignments recipe_fips) ''GINKGO_FOCUS'')"] conjI allI impI)
  show "make_e2e_parameters True (Some ''fips'')
      = MakeRan [(assignments recipe_fips, ''./hack/e2e/run.sh'')]"
    by (simp add: make_defs recipe_fips_def)
  show "map_of (assignments recipe_fips) ''GINKGO_FOCUS''
      = Some (the (map_of (assignments recipe_fips) ''GINKGO_FOCUS''))"
    by (simp add: recipe_fips_def)
  fix x it_text
  assume h: "CHR ''['' \<notin> set x \<and> CHR '']'' \<notin> set x \<and> CHR ''['' \<notin> set it_text"
  have p: "parse_rx Outside (the (map_of (assignments recipe_fips) ''GINKGO_FOCUS''))
      = Some (map Lit ''[ebs-csi-e2e] [single-az] [param:'' @ map Lit ''fips'' @ [Lit CHR '']''])"
    by (simp add: recipe_fips_def metachar_def)
  have l: "param_set_labels ''fips'' = [''fips'']"
    by (simp add: param_set_labels_def)
  show "focus_selects (the (map_of (assignments recipe_fips) ''GINKGO_FOCUS'')) (test_text x it_text)
      = (x \<in> set (param_set_labels ''fips''))"
    unfolding focus_selects_def p l option.case
    using h by (intro focus_search_single [where n = "''fips''"]) simp_all
qed

lemma runs_infra: "runs_once_focused ''infra''"
  unfolding runs_once_focused_def
proof (intro exI [of _ "assignments recipe_infra"]
    exI [of _ "the (map_of (assignments recipe_infra) ''GINKGO_FOCUS'')"] conjI allI impI)
  show "make_e2e_parameters True (Some ''infra'')
      = MakeRan [(assignments recipe_infra, ''./hack/e2e/run.sh'')]"
    by (simp add: make_defs recipe_infra_def)
  show "map_of (assignments recipe_infra) ''GINKGO_FOCUS''
      = Some (the (map_of (assignments recipe_infra) ''GINKGO_FOCUS''))"
    by (simp add: recipe_infra_def)
  fix x it_text
  assume h: "CHR ''['' \<notin> set x \<and> CHR '']'' \<notin> set x \<and> CHR ''['' \<notin> set it_text"
  have p: "parse_rx Outside (the (map_of (assignments recipe_infra) ''GINKGO_FOCUS''))
      = Some (map Lit ''[ebs-csi-e2e] [single-az] [param:'' @ [Alt [''controllerReplicaCount'', ''controllerPriorityClassName'', ''controllerResources'', ''controllerPodAnnotations'', ''controllerPodLabels'', ''controllerDeploymentAnnotations'', ''controllerRevisionHistoryLimit'', ''nodePriorityClassName'', ''nodeResources'', ''nodePodAnnotations'', ''nodeDaemonSetAnnotations'', ''nodeRevisionHistoryLimit'', ''provisionerResources'', ''attacherResources'', ''snapshotterResources'', ''resizerResources'', ''nodeDriverRegistrarResources'', ''livenessProbeResources'', ''customLabels'', ''controllerEnv'', ''nodeEnv'', ''controllerTopologySpreadConstraints'', ''controllerSecurityContext'', ''nodeSecurityContext'', ''controllerContainerSecurityContext'', ''controllerVolumes'', ''controllerVolumeMounts'', ''nodeVolumes'', ''nodeVolumeMounts'', ''controllerDnsConfig'', ''nodeDnsConfig'', ''controllerInitContainers'', ''nodeInitContainers'', ''imagePullPolicy''], Lit CHR '']''])"
    by (simp add: recipe_infra_def metachar_def)
  have l: "param_set_labels ''infra'' = [''controllerReplicaCount'', ''controllerPriorityClassName'', ''controllerResources'', ''controllerPodAnnotations'', ''controllerPodLabels'', ''controllerDeploymentAnnotations'', ''controllerRevisionHistoryLimit'', ''nodePriorityClassName'', ''nodeResources'', ''nodePodAnnotations'', ''nodeDaemonSetAnnotations'', ''nodeRevisionHistoryLimit'', ''provisionerResources'', ''attacherResources'', ''snapshotterResources'', ''resizerResources'', ''nodeDriverRegistrarResources'', ''livenessProbeResources'', ''customLabels'', ''controllerEnv'', ''nodeEnv'', ''controllerTopologySpreadConstraints'', ''controllerSecurityContext'', ''nodeSecurityContext'', ''controllerContainerSecurityContext'', ''controllerVolumes'', ''controllerVolumeMounts'', ''nodeVolumes'', ''nodeVolumeMounts'', ''controllerDnsConfig'', ''nodeDnsConfig'', ''controllerInitContainers'', ''nodeInitContainers'', ''imagePullPolicy'']"
    by (simp add: param_set_labels_def)
  show "focus_selects (the (map_of (assignments recipe_infra) ''GINKGO_FOCUS'')) (test_text x it_text)
      = (x \<in> set (param_set_labels ''infra''))"
    unfolding focus_selects_def p l option.case
    using h by (intro focus_search [where names = "[''controllerReplicaCount'', ''controllerPriorityClassName'', ''controllerResources'', ''controllerPodAnnotations'', ''controllerPodLabels'', ''controllerDeploymentAnnotations'', ''controllerRevisionHistoryLimit'', ''nodePriorityClassName'', ''nodeResources'', ''nodePodAnnotations'', ''nodeDaemonSetAnnotations'', ''nodeRevisionHistoryLimit'', ''provisionerResources'', ''attacherResources'', ''snapshotterResources'', ''resizerResources'', ''nodeDriverRegistrarResources'', ''livenessProbeResources'', ''customLabels'', ''controllerEnv'', ''nodeEnv'', ''controllerTopologySpreadConstraints'', ''controllerSecurityContext'', ''nodeSecurityContext'', ''controllerContainerSecurityContext'', ''controllerVolumes'', ''controllerVolumeMounts'', ''nodeVolumes'', ''nodeVolumeMounts'', ''controllerDnsConfig'', ''nodeDnsConfig'', ''controllerInitContainers'', ''nodeInitContainers'', ''imagePullPolicy'']"]) simp_all
qed

lemma runs_update_strategy: "runs_once_focused ''update-strategy''"
  unfolding runs_once_focused_def
proof (intro exI [of _ "assignments recipe_update_strategy"]
    exI [of _ "the (map_of (assignments recipe_update_strategy) ''GINKGO_FOCUS'')"] conjI allI impI)
  show "make_e2e_parameters True (Some ''update-strategy'')
      = MakeRan [(assignments recipe_update_strategy, ''./hack/e2e/run.sh'')]"
    by (simp add: make_defs recipe_update_strategy_def)
  show "map_of (assignments recipe_update_strategy) ''GINKGO_FOCUS''
      = Some (the (map_of (assignments recipe_update_strategy) ''GINKGO_FOCUS''))"
    by (simp add: recipe_update_strategy_def)
  fix x it_text
  assume h: "CHR ''['' \<notin> set x \<and> CHR '']'' \<notin> set x \<and> CHR ''['' \<notin> set it_text"
  have p: "parse_rx Outside (the (map_of (assignments recipe_update_strategy) ''GINKGO_FOCUS''))
      = Some (map Lit ''[ebs-csi-e2e] [single-az] [param:'' @ [Alt [''controllerUpdateStrategy'', ''nodeUpdateStrategy''], Lit CHR '']''])"
    by (simp add: recipe_update_strategy_def metachar_def)
  have l: "param_set_labels ''update-strategy'' = [''controllerUpdateStrategy'', ''nodeUpdateStrategy'']"
    by (simp add: param_set_labels_def)
  show "focus_selects (the (map_of (assignments recipe_update_strategy) ''GINKGO_FOCUS'')) (test_text x it_text)
      = (x \<in> set (param_set_labels ''update-strategy''))"
    unfolding focus_selects_def p l option.case
    using h by (intro focus_search [where names = "[''controllerUpdateStrategy'', ''nodeUpdateStrategy'']"]) simp_all
qed

lemma all_param_sets_run: "list_all runs_once_focused recognized_param_sets"
  unfolding recognized_param_sets_def list.pred_inject
  by (intro conjI list.pred_inject(1) runs_standard runs_volume_modification runs_node_config runs_volume_attach_limit runs_storage_classes runs_debug runs_metadata_labeler runs_legacy_compat runs_selinux runs_fips runs_infra runs_update_strategy)

lemma unknown_param_set_recipe:
  assumes "PARAM_SET_value P \<notin> set recognized_param_sets"
  shows "\<exists>msg. expand_recipe (e2e_parameters_recipe P) = Inl msg"
proof -
  from assms have "e2e_parameters_recipe P =
     (if ifndef P then [MakeError (message (hd (e2e_parameters_recipe P)))] else []) @
     [MakeError (message (last (e2e_parameters_recipe P)))]"
    by (simp add: recognized_param_sets_def e2e_parameters_recipe_def)
  then show ?thesis
    by (metis append_Cons append_Nil expand_recipe.simps(2))
qed

text \<open>
  C7: with PARAM\_SET not set (or empty) make stops with the "PARAM\_SET is required"
  error, with a value outside the twelve recognised names it stops with the "Unknown
  PARAM\_SET" error, and for each recognised name the recipe is one run of
  ./hack/e2e/run.sh whose GINKGO\_FOCUS selects a test of the suite exactly when the test's
  [param:...] label is one of those the branch names.
\<close>

theorem e2e_parameters_target:
  "(ifndef P \<longrightarrow>
      (\<exists>rest. make_e2e_parameters True P = MakeStop (''PARAM_SET is required'' @ rest)))
   \<and> (\<not> ifndef P \<and> PARAM_SET_value P \<notin> set recognized_param_sets \<longrightarrow>
      (\<exists>rest. make_e2e_parameters True P
         = MakeStop (''Unknown PARAM_SET: '' @ PARAM_SET_value P @ rest)))
   \<and> (PARAM_SET_value P \<notin> set recognized_param_sets \<longrightarrow>
      (\<exists>msg. make_e2e_parameters built P = MakeStop msg))
   \<and> (\<forall>p \<in> set recognized_param_sets. runs_once_focused p)"
proof (intro conjI impI)
  assume "ifndef P"
  then show "\<exists>rest. make_e2e_parameters True P = MakeStop (''PARAM_SET is required'' @ rest)"
    by (simp add: make_defs)
next
  assume a: "\<not> ifndef P \<and> PARAM_SET_value P \<notin> set recognized_param_sets"
  then show "\<exists>rest. make_e2e_parameters True P
         = MakeStop (''Unknown PARAM_SET: '' @ PARAM_SET_value P @ rest)"
    by (simp add: make_e2e_parameters_def e2e_parameters_recipe_def recognized_param_sets_def)
next
  assume "PARAM_SET_value P \<notin> set recognized_param_sets"
  from unknown_param_set_recipe [OF this]
  show "\<exists>msg. make_e2e_parameters built P = MakeStop msg"
    by (auto simp: make_e2e_parameters_def)
next
  show "\<forall>p \<in> set recognized_param_sets. runs_once_focused p"
    using all_param_sets_run by (simp add: list_all_iff)
qed

theorem e2e_parameters_target_witness:
  "ifndef None
   \<and> (\<exists>rest. make_e2e_parameters True None = MakeStop (''PARAM_SET is required'' @ rest))
   \<and> \<not> ifndef (Some ''stanard'') \<and> PARAM_SET_value (Some ''stanard'') \<notin> set recognized_param_sets
   \<and> (\<exists>rest. make_e2e_parameters True (Some ''stanard'')
         = MakeStop (''Unknown PARAM_SET: '' @ ''stanard'' @ rest))
   \<and> ''debug'' \<in> set recognized_param_sets
   \<and> focus_selects
        ([BS] @ ''[ebs-csi-e2e'' @ [BS] @ ''] '' @ [BS] @ ''[single-az'' @ [BS] @ ''] '' @ [BS]
           @ ''[param:(debugLogs|sdkDebugLog)'' @ [BS] @ '']'')
        (test_text ''debugLogs'' ''should have maximum verbosity in all containers'')
   \<and> \<not> focus_selects
        ([BS] @ ''[ebs-csi-e2e'' @ [BS] @ ''] '' @ [BS] @ ''[single-az'' @ [BS] @ ''] '' @ [BS]
           @ ''[param:(debugLogs|sdkDebugLog)'' @ [BS] @ '']'')
        (test_text ''fips'' ''should use FIPS-compliant image'')"
proof -
  have u: "ifndef None" by (simp add: ifndef_def PARAM_SET_value_def)
  have n: "\<not> ifndef (Some ''stanard'') \<and> PARAM_SET_value (Some ''stanard'') \<notin> set recognized_param_sets"
    by (simp add: ifndef_def PARAM_SET_value_def recognized_param_sets_def)
  have d: "''debug'' \<in> set recognized_param_sets"
    by (simp add: recognized_param_sets_def)
  have v: "PARAM_SET_value (Some ''stanard'') = ''stanard''"
    by (simp add: PARAM_SET_value_def)
  note t = e2e_parameters_target [of None True]
  note s = e2e_parameters_target [of "Some ''stanard''" True]
  from t u have 1: "\<exists>rest. make_e2e_parameters True None = MakeStop (''PARAM_SET is required'' @ rest)"
    by blast
  from s n have 2: "\<exists>rest. make_e2e_parameters True (Some ''stanard'')
         = MakeStop (''Unknown PARAM_SET: '' @ ''stanard'' @ rest)"
    unfolding v by blast
  from t d have "runs_once_focused ''debug''" by blast
  then obtain ev focus where
    r: "make_e2e_parameters True (Some ''debug'') = MakeRan [(ev, ''./hack/e2e/run.sh'')]"
    and f: "map_of ev ''GINKGO_FOCUS'' = Some focus"
    and sel: "\<And>x it_text. CHR ''['' \<notin> set x \<and> CHR '']'' \<notin> set x \<and> CHR ''['' \<notin> set it_text \<Longrightarrow>
           focus_selects focus (test_text x it_text) = (x \<in> set (param_set_labels ''debug''))"
    unfolding runs_once_focused_def by blast
  from r have "ev = assignments recipe_debug"
    by (simp add: make_defs recipe_debug_def)
  with f have fe: "focus = [BS] @ ''[ebs-csi-e2e'' @ [BS] @ ''] '' @ [BS] @ ''[single-az'' @ [BS] @ ''] '' @ [BS]
           @ ''[param:(debugLogs|sdkDebugLog)'' @ [BS] @ '']''"
    by (simp add: recipe_debug_def)
  have 3: "focus_selects focus (test_text ''debugLogs'' ''should have maximum verbosity in all containers'')"
    by (subst sel) (simp_all add: param_set_labels_def)
  have 4: "\<not> focus_selects focus (test_text ''fips'' ''should use FIPS-compliant image'')"
    by (subst sel) (simp_all add: param_set_labels_def)
  from u 1 n 2 d 3 4 show ?thesis unfolding fe v by blast
qed

section \<open>Theorems: the release script\<close>

subsection \<open>Word splitting\<close>





subsection \<open>What every command of main leaves alone\<close>


















lemmas script_defs = run_script_def script_def preamble_def main_def check_dependencies_def
  generate_image_digests_file_def update_sidecars_source_of_truth_def update_sidecar_def
  crane_get_latest_image_tag_def log_def simple_def call_def errexit_def ERR_trap_def
  error_handler_def EXIT_trap_def rm_def ext_def initial_def cat_def ifs_split_def is_ifs_def
  yq_keys_def yq_get_def yq_set_def

subsection \<open>The temporary file\<close>










subsection \<open>The error handler\<close>

text \<open>
  C4, at a failing input: with the registry down, \<open>crane ls\<close> fails in line 63, inside
  \<open>crane_get_latest_image_tag\<close>. The script ends with status 1, but standard error holds
  the one INFO line of \<open>log\<close> and no report of \<open>error_handler\<close>: without \<open>set -E\<close> the
  ERR trap is not set inside shell functions, and every command of the script after the
  trap is installed runs inside one.
\<close>

theorem crane_failure_not_reported:
  "fst (run_script registry_down) = 1
   \<and> stderr (snd (run_script registry_down)) =
       [''2026-01-01 00:00:00 [INFO] - Updating attacher in /repo/hack/release-scripts/../../hack/release-scripts/image-digests.yaml'']
   \<and> last (ran (snd (run_script registry_down))) = [''rm'', ''/tmp/tmp.Xa1b2C3d4E'']"
  by (simp add: script_defs registry_down_def)

subsection \<open>Version sort\<close>







subsection \<open>yq\<close>



subsection \<open>One round of the loop, and the loop\<close>




lemma log_output: "log w m s = (r, s') \<Longrightarrow> output_file s' = output_file s \<and> r = Ok"
  by (auto simp: log_def simple_def ext_def)

lemmas step_defs = simple_def call_def log_def errexit_def ERR_trap_def error_handler_def
  ext_def Let_def

lemma crane_get_Ok:
  assumes "crane_get_latest_image_tag w a s = (Ok, s')"
  shows "\<exists>tags. crane_ls w a = Some tags \<and> TAG s' = latest_image_tag w tags \<and>
           image_var s' = a \<and> output_file s' = output_file s"
  using assms
  by (auto simp: crane_get_latest_image_tag_def step_defs latest_image_tag_def
        split: option.splits if_splits)




subsection \<open>A successful run\<close>








subsection \<open>The commands the script runs\<close>







lemma tools_only_ext:
  "hd a \<in> set script_tools \<Longrightarrow> tools_only r (r @ [a])"
  by (simp add: tools_only_def)
















section \<open>Theorems: no retry, no recovery\<close>














end
